theory Spec2Isabelle
  imports Complex_Main
begin

section \<open>Floating-point values and masked arrays\<close>

text \<open>
  The analysis script \<^verbatim>\<open>analysis_photostat_simple.py\<close> computes on numpy arrays of
  64-bit floats. Finite floats are modelled by exact reals (no rounding, no overflow, the
  sign of a zero is not tracked); the special values that numpy's arithmetic produces from
  finite operands (\<open>0/0\<close>, \<open>x/0\<close>, the square root of a negative number) are kept as
  constructors of their own, because the script compares them and masks on them.
\<close>

datatype npfloat = Fin real | PInf | NInf | NaN

fun fl_add :: "npfloat \<Rightarrow> npfloat \<Rightarrow> npfloat" where
  "fl_add (Fin a) (Fin b) = Fin (a + b)"
| "fl_add NaN _ = NaN"
| "fl_add _ NaN = NaN"
| "fl_add PInf NInf = NaN"
| "fl_add NInf PInf = NaN"
| "fl_add PInf _ = PInf"
| "fl_add _ PInf = PInf"
| "fl_add NInf _ = NInf"
| "fl_add _ NInf = NInf"

fun fl_mul :: "npfloat \<Rightarrow> npfloat \<Rightarrow> npfloat" where
  "fl_mul (Fin a) (Fin b) = Fin (a * b)"
| "fl_mul NaN _ = NaN"
| "fl_mul _ NaN = NaN"
| "fl_mul (Fin a) PInf = (if a = 0 then NaN else if 0 < a then PInf else NInf)"
| "fl_mul (Fin a) NInf = (if a = 0 then NaN else if 0 < a then NInf else PInf)"
| "fl_mul PInf (Fin b) = (if b = 0 then NaN else if 0 < b then PInf else NInf)"
| "fl_mul NInf (Fin b) = (if b = 0 then NaN else if 0 < b then NInf else PInf)"
| "fl_mul PInf PInf = PInf"
| "fl_mul NInf NInf = PInf"
| "fl_mul PInf NInf = NInf"
| "fl_mul NInf PInf = NInf"

text \<open>
  Division of plain arrays: numpy warns on a zero denominator and returns an infinity
  (nonzero numerator) or NaN (\<open>0/0\<close>); it does not raise.
\<close>

fun fl_div :: "npfloat \<Rightarrow> npfloat \<Rightarrow> npfloat" where
  "fl_div (Fin a) (Fin b) =
     (if b \<noteq> 0 then Fin (a / b) else if a = 0 then NaN else if 0 < a then PInf else NInf)"
| "fl_div NaN _ = NaN"
| "fl_div _ NaN = NaN"
| "fl_div (Fin a) PInf = Fin 0"
| "fl_div (Fin a) NInf = Fin 0"
| "fl_div PInf (Fin b) = (if 0 \<le> b then PInf else NInf)"
| "fl_div NInf (Fin b) = (if 0 \<le> b then NInf else PInf)"
| "fl_div PInf PInf = NaN"
| "fl_div PInf NInf = NaN"
| "fl_div NInf PInf = NaN"
| "fl_div NInf NInf = NaN"

fun fl_sqrt :: "npfloat \<Rightarrow> npfloat" where
  "fl_sqrt (Fin a) = (if a < 0 then NaN else Fin (sqrt a))"
| "fl_sqrt PInf = PInf"
| "fl_sqrt NInf = NaN"
| "fl_sqrt NaN = NaN"

text \<open>The comparison \<^verbatim>\<open>a == 0\<close> of a float: false for NaN and the infinities.\<close>

fun fl_is_zero :: "npfloat \<Rightarrow> bool" where
  "fl_is_zero (Fin a) = (a = 0)"
| "fl_is_zero PInf = False"
| "fl_is_zero NInf = False"
| "fl_is_zero NaN = False"

text \<open>
  A numpy masked array is a data array with a boolean mask of the same length; the data
  below a set mask bit stays in the array. \<open>cells\<close> reads it as it is used by the
  reductions: a masked entry has no value.
\<close>

record 'a marray =
  mdata :: "'a list"
  mmask :: "bool list"

definition masked_array :: "'a list \<Rightarrow> bool list \<Rightarrow> 'a marray" where
  "masked_array d m = \<lparr>mdata = d, mmask = m\<rparr>"

definition cells :: "'a marray \<Rightarrow> 'a option list" where
  "cells a = map2 (\<lambda>d m. if m then None else Some d) (mdata a) (mmask a)"

text \<open>\<^verbatim>\<open>a.count()\<close>: the number of entries that are not masked.\<close>

definition ma_count :: "'a marray \<Rightarrow> int" where
  "ma_count a = int (length (filter Not (mmask a)))"

text \<open>\<^verbatim>\<open>ma.count_masked(a)\<close>: the number of masked entries.\<close>

definition count_masked :: "'a marray \<Rightarrow> int" where
  "count_masked a = int (length (filter id (mmask a)))"

subsection \<open>Element-wise operations of numpy.ma\<close>

text \<open>
  An operation on masked arrays masks the result wherever an operand is masked. The
  division and the power of \<^verbatim>\<open>numpy.ma\<close> also mask every entry whose result is not
  finite or whose denominator is zero (the library's safe-division test
  \<open>|a| * tiny \<ge> |b|\<close> is \<open>b = 0\<close> in exact arithmetic), and \<^verbatim>\<open>np.log\<close> of a masked
  array masks the entries that are not positive.
\<close>

definition m_sub_plain :: "real option \<Rightarrow> real \<Rightarrow> real option" where
  "m_sub_plain c f = map_option (\<lambda>d. d - f) c"

definition m_sq :: "real option \<Rightarrow> real option" where
  "m_sq c = map_option (\<lambda>x. x ^ 2) c"

fun m_sq_fl :: "npfloat option \<Rightarrow> real option" where
  "m_sq_fl (Some (Fin s)) = Some (s ^ 2)"
| "m_sq_fl _ = None"

definition m_add_scalar :: "real option \<Rightarrow> real \<Rightarrow> real option" where
  "m_add_scalar c v = map_option (\<lambda>x. x + v) c"

fun m_div :: "real option \<Rightarrow> real option \<Rightarrow> real option" where
  "m_div (Some a) (Some b) = (if b = 0 then None else Some (a / b))"
| "m_div _ _ = None"

fun m_log :: "real option \<Rightarrow> real option" where
  "m_log (Some x) = (if x \<le> 0 then None else Some (ln x))"
| "m_log None = None"

fun m_sub :: "real option \<Rightarrow> real option \<Rightarrow> real option" where
  "m_sub (Some a) (Some b) = Some (a - b)"
| "m_sub _ _ = None"

text \<open>
  \<^verbatim>\<open>np.sum\<close> of a masked array adds the entries that are not masked; when every entry
  is masked the result is the constant \<^verbatim>\<open>masked\<close>, here \<open>None\<close>.
\<close>

definition m_sum :: "real option list \<Rightarrow> real option" where
  "m_sum cs = (if list_all (\<lambda>c. c = None) cs then None
               else Some (sum_list (map (\<lambda>c. case c of None \<Rightarrow> 0 | Some x \<Rightarrow> x) cs)))"

section \<open>The illumination model and the two fit objectives\<close>

text \<open>
  \<^verbatim>\<open>Gaussian_model\<close> scales the density of ctapipe's two-dimensional Gaussian, evaluated
  at the camera's pixel coordinates. The density and the camera are outside the script:
  \<open>pdf x y std_x std_y\<close> is the list of its values, one per pixel.
\<close>

type_synonym camera_pdf = "real \<Rightarrow> real \<Rightarrow> real \<Rightarrow> real \<Rightarrow> real list"

definition Gaussian_model :: "camera_pdf \<Rightarrow> real \<Rightarrow> real \<Rightarrow> real \<Rightarrow> real \<Rightarrow> real \<Rightarrow> real list" where
  "Gaussian_model pdf A x y std_x std_y = map (\<lambda>p. A * p) (pdf x y std_x std_y)"

text \<open>
  One term of \<^verbatim>\<open>(n_pe - model) ** 2 / (sigma_masked**2)\<close>, and one term of
  \<^verbatim>\<open>(n_pe - model) ** 2 / (sigma_masked**2 + v_int)
      - np.log(sigma_masked**2 / (sigma_masked**2 + v_int))\<close>.
\<close>

definition lsq_term :: "real option \<Rightarrow> real \<Rightarrow> npfloat option \<Rightarrow> real option" where
  "lsq_term d f s = m_div (m_sq (m_sub_plain d f)) (m_sq_fl s)"

definition variance_term :: "real \<Rightarrow> real option \<Rightarrow> real \<Rightarrow> npfloat option \<Rightarrow> real option" where
  "variance_term v_int d f s =
     m_sub (m_div (m_sq (m_sub_plain d f)) (m_add_scalar (m_sq_fl s) v_int))
           (m_log (m_div (m_sq_fl s) (m_add_scalar (m_sq_fl s) v_int)))"

text \<open>
  The arrays \<^verbatim>\<open>n_pe\<close> and \<^verbatim>\<open>sigma_masked\<close> that the module-level objectives read are
  globals of the script; they are arguments here. Arrays combined element by element have
  the same length (numpy raises otherwise).
\<close>

definition LSQ ::
  "camera_pdf \<Rightarrow> real marray \<Rightarrow> npfloat marray \<Rightarrow> real \<Rightarrow> real \<Rightarrow> real \<Rightarrow> real \<Rightarrow> real option" where
  "LSQ pdf n_pe sigma_masked a0 a1 a2 a3 =
     (let a4 = a3 in
      m_sum (map (\<lambda>(d, f, s). lsq_term d f s)
               (zip (cells n_pe) (zip (Gaussian_model pdf a0 a1 a2 a3 a4) (cells sigma_masked)))))"

definition LS_variance ::
  "camera_pdf \<Rightarrow> real marray \<Rightarrow> npfloat marray \<Rightarrow> real \<Rightarrow> real \<Rightarrow> real \<Rightarrow> real \<Rightarrow> real \<Rightarrow> real option" where
  "LS_variance pdf n_pe sigma_masked a0 a1 a2 a3 v_int =
     (let a4 = a3 in
      m_sum (map (\<lambda>(d, f, s). variance_term v_int d f s)
               (zip (cells n_pe) (zip (Gaussian_model pdf a0 a1 a2 a3 a4) (cells sigma_masked)))))"

text \<open>
  \<^verbatim>\<open>np.mean\<close> and \<^verbatim>\<open>np.std\<close> of a masked array range over the entries that are not
  masked (the standard deviation is the population one, \<open>ddof = 0\<close>); with no such entry
  the result is the constant \<^verbatim>\<open>masked\<close>.
\<close>

definition compressed :: "'a option list \<Rightarrow> 'a list" where
  "compressed cs = concat (map (\<lambda>c. case c of None \<Rightarrow> [] | Some x \<Rightarrow> [x]) cs)"

definition m_mean :: "real option list \<Rightarrow> real option" where
  "m_mean cs = (let vs = compressed cs in
                if vs = [] then None else Some (sum_list vs / real (length vs)))"

definition m_std :: "real option list \<Rightarrow> real option" where
  "m_std cs = (let vs = compressed cs in
               case m_mean cs of
                 None \<Rightarrow> None
               | Some mu \<Rightarrow> Some (sqrt (sum_list (map (\<lambda>x. (x - mu) ^ 2) vs) / real (length vs))))"

section \<open>Single-pass outlier rejection and the two fitters\<close>

text \<open>
  \<^verbatim>\<open>np.mean\<close>, \<^verbatim>\<open>np.std\<close>, the subtraction \<^verbatim>\<open>data - mean\<close> and the product
  \<^verbatim>\<open>3 * std\<close> are computed in float64 and round. How they round is not modelled: the
  four operations are parameters of the outlier test, on finite floats as reals. The mean
  and the standard deviation of a masked array are the constant \<^verbatim>\<open>masked\<close>, here
  \<open>None\<close>, when no entry is left.
\<close>

record np_arith =
  np_mean :: "real option list \<Rightarrow> real option"
  np_std :: "real option list \<Rightarrow> real option"
  np_subtract :: "real \<Rightarrow> real \<Rightarrow> real"
  np_multiply :: "real \<Rightarrow> real \<Rightarrow> real"

text \<open>
  The arithmetic without rounding error; float64 computes the same values whenever every
  intermediate result is representable.
\<close>

definition exact_arith :: np_arith where
  "exact_arith = \<lparr>np_mean = m_mean, np_std = m_std,
                   np_subtract = (\<lambda>a b. a - b), np_multiply = (\<lambda>a b. a * b)\<rparr>"

text \<open>
  \<^verbatim>\<open>outliers = [np.abs(data - mean) > 3 * std]\<close>. The comparison is strict. The flags
  are the data of the comparison's result, which \<^verbatim>\<open>ma.masked_array(..., mask=outliers)\<close>
  reads without its mask: below a masked entry of \<open>data\<close> numpy.ma leaves the entry's own
  data in the difference, and when every entry is masked \<open>mean\<close> and \<open>3 * std\<close> are the
  constant \<^verbatim>\<open>masked\<close>, whose data is 0.
\<close>

definition outlier_flags :: "np_arith \<Rightarrow> real marray \<Rightarrow> bool list" where
  "outlier_flags ar data_in =
     (case (np_mean ar (cells data_in), np_std ar (cells data_in)) of
        (Some mean, Some std) \<Rightarrow>
          map2 (\<lambda>d m. if m then np_multiply ar 3 std < \<bar>d\<bar>
                       else np_multiply ar 3 std < \<bar>np_subtract ar d mean\<bar>)
            (mdata data_in) (mmask data_in)
      | _ \<Rightarrow> map (\<lambda>d. 0 < \<bar>d\<bar>) (mdata data_in))"

text \<open>
  \<^verbatim>\<open>ma.masked_array(a, mask=m)\<close> of an array that is already masked builds a new
  masked array over the same data whose mask is the disjunction of \<open>m\<close> and the old mask;
  the argument keeps its own mask.
\<close>

definition remask :: "'a marray \<Rightarrow> bool list \<Rightarrow> 'a marray" where
  "remask a m = \<lparr>mdata = mdata a, mmask = map2 (\<lambda>x y. x \<or> y) m (mmask a)\<rparr>"

text \<open>
  \<^verbatim>\<open>define_delete_out(sigma, data)\<close>, defined with the same body inside both fitters;
  it returns \<^verbatim>\<open>(data, sigma, outliers)\<close>.
\<close>

definition define_delete_out ::
  "np_arith \<Rightarrow> npfloat marray \<Rightarrow> real marray \<Rightarrow>
     real marray \<times> npfloat marray \<times> bool list" where
  "define_delete_out ar sigma data_in =
     (let outliers = outlier_flags ar data_in;
          sigma' = remask sigma outliers;
          data' = remask data_in outliers
      in (data', sigma', outliers))"

text \<open>
  Minuit is outside the script. A minimiser takes the objective, the start values and the
  lower limits set on parameters, and returns the fitted values with their errors and
  covariance.
\<close>

record fit_result =
  fit_values :: "real list"
  fit_errors :: "real list"
  fit_covariance :: "real list list"
  fit_is_valid :: bool

type_synonym minimiser =
  "(real list \<Rightarrow> real option) \<Rightarrow> real list \<Rightarrow> (nat \<times> real) list \<Rightarrow> fit_result"

definition LSQ_wrap ::
  "camera_pdf \<Rightarrow> real marray \<Rightarrow> npfloat marray \<Rightarrow> real \<Rightarrow> real \<Rightarrow> real \<Rightarrow> real \<Rightarrow> real option" where
  "LSQ_wrap pdf n_pe sigma_masked a0 a1 a2 a3 =
     (let a4 = a3 in
      m_sum (map (\<lambda>(d, f, s). lsq_term d f s)
               (zip (cells n_pe) (zip (Gaussian_model pdf a0 a1 a2 a3 a4) (cells sigma_masked)))))"

text \<open>
  \<^verbatim>\<open>LSQ_wrap_var(array_parameters)\<close> unpacks the five entries of the parameter array
  that Minuit passes (it has the length of the start vector, which has five entries).
\<close>

definition LSQ_wrap_var ::
  "camera_pdf \<Rightarrow> real marray \<Rightarrow> npfloat marray \<Rightarrow> real \<times> real \<times> real \<times> real \<times> real \<Rightarrow> real option" where
  "LSQ_wrap_var pdf n_pe sigma_masked array_parameters =
     (case array_parameters of (A, x, y, std_x, v_int) \<Rightarrow>
        let std_y = std_x in
        m_sum (map (\<lambda>(d, f, s). variance_term v_int d f s)
                 (zip (cells n_pe) (zip (Gaussian_model pdf A x y std_x std_y) (cells sigma_masked)))))"

text \<open>The residual image \<^verbatim>\<open>(n_pe - model) / model\<close>.\<close>

definition residual_image :: "real marray \<Rightarrow> real list \<Rightarrow> real option list" where
  "residual_image n_pe model = map2 (\<lambda>d f. m_div (m_sub_plain d f) (Some f)) (cells n_pe) model"

text \<open>
  \<^verbatim>\<open>optimize_with_outlier_rejection(sigma, data)\<close>. The names \<^verbatim>\<open>n_pe\<close> and
  \<^verbatim>\<open>sigma_masked\<close> it assigns are local to the function; it returns
  \<^verbatim>\<open>(n_pe, model, minuit, residuals)\<close>. Printing and plotting are left out.
\<close>

definition optimize_with_outlier_rejection ::
  "np_arith \<Rightarrow> minimiser \<Rightarrow> camera_pdf \<Rightarrow> npfloat marray \<Rightarrow> real marray \<Rightarrow>
     real marray \<times> real list \<times> fit_result \<times> real option list" where
  "optimize_with_outlier_rejection ar minimise pdf sigma data_in =
     (case define_delete_out ar sigma data_in of (n_pe, sigma_masked, mask_upd) \<Rightarrow>
        let minuit = minimise
              (\<lambda>a. LSQ_wrap pdf n_pe sigma_masked (a ! 0) (a ! 1) (a ! 2) (a ! 3))
              [1000, 0, 0, 1.5] [];
            v = fit_values minuit;
            model = Gaussian_model pdf (v ! 0) (v ! 1) (v ! 2) (v ! 3) (v ! 3);
            residuals = residual_image n_pe model
        in (n_pe, model, minuit, residuals))"

text \<open>
  The accounting dictionary \<^verbatim>\<open>dict_missing_pix\<close> with its keys \<^verbatim>\<open>"Missing pixels"\<close>,
  \<^verbatim>\<open>"high_gain = 0"\<close> and, once a fit has run, \<^verbatim>\<open>"rejected_outliers"\<close>.
\<close>

record tally =
  missing_pixels_count :: int
  high_gain_zero_count :: int
  rejected_outliers :: "int option"

text \<open>
  \<^verbatim>\<open>optimize_with_outlier_rejection_variance(sigma, data, minuit)\<close> also writes the
  key \<^verbatim>\<open>"rejected_outliers"\<close> of the global dictionary, from the count of its local,
  outlier-masked \<^verbatim>\<open>sigma_masked\<close>; the dictionary is passed in and returned.
\<close>

definition optimize_with_outlier_rejection_variance ::
  "np_arith \<Rightarrow> minimiser \<Rightarrow> camera_pdf \<Rightarrow> tally \<Rightarrow> npfloat marray \<Rightarrow> real marray \<Rightarrow>
     real list \<Rightarrow> (real marray \<times> real list \<times> fit_result \<times> real option list) \<times> tally" where
  "optimize_with_outlier_rejection_variance ar minimise pdf dict_missing_pix sigma data_in minuit =
     (case define_delete_out ar sigma data_in of (n_pe, sigma_masked, mask_upd) \<Rightarrow>
        let minuit_new = minimise
              (\<lambda>a. LSQ_wrap_var pdf n_pe sigma_masked (a ! 0, a ! 1, a ! 2, a ! 3, a ! 4))
              minuit [(0, 0), (3, 0), (4, 0)];
            v = fit_values minuit_new;
            model = Gaussian_model pdf (v ! 0) (v ! 1) (v ! 2) (v ! 3) (v ! 3);
            residuals = residual_image n_pe model;
            dict' = dict_missing_pix
              \<lparr>rejected_outliers := Some (1855 - ma_count sigma_masked
                   - missing_pixels_count dict_missing_pix
                   - high_gain_zero_count dict_missing_pix)\<rparr>
        in ((n_pe, model, minuit_new, residuals), dict'))"

section \<open>The pixel data normalizer\<close>

text \<open>
  The fields of the gain container that \<^verbatim>\<open>pre_process_fits\<close> reads. An array is
  one-dimensional or two-dimensional; \<open>Arr2 k rows\<close> has shape \<open>(length rows, k)\<close>, every
  row having \<open>k\<close> entries. Pixel ids are unsigned integers. The input values are finite.
\<close>

datatype ndarray = Arr1 "real list" | Arr2 nat "real list list"

datatype error = ValueError | IndexError

record container =
  pixels_id :: "nat list"
  high_gain :: ndarray
  low_gain :: ndarray
  charge :: "real list"
  charge_std :: ndarray
  is_valid :: "bool list"

definition bind_err :: "error + 'a \<Rightarrow> ('a \<Rightarrow> error + 'b) \<Rightarrow> error + 'b" where
  "bind_err r f = (case r of Inl e \<Rightarrow> Inl e | Inr x \<Rightarrow> f x)"

text \<open>\<^verbatim>\<open>a.shape[1] if len(a.shape) > 1 else 1\<close>\<close>

definition shape1 :: "ndarray \<Rightarrow> nat" where
  "shape1 a = (case a of Arr2 k rows \<Rightarrow> k | Arr1 xs \<Rightarrow> 1)"

definition np_zeros2 :: "nat \<Rightarrow> nat \<Rightarrow> ndarray" where
  "np_zeros2 m k = Arr2 k (replicate m (replicate k 0))"

definition np_zeros :: "nat \<Rightarrow> real list" where
  "np_zeros m = replicate m 0"

text \<open>
  \<^verbatim>\<open>np.concatenate([a, b], axis=0)\<close> raises ValueError when the two arrays differ in
  their number of dimensions or in their number of columns.
\<close>

fun concatenate0 :: "ndarray \<Rightarrow> ndarray \<Rightarrow> error + ndarray" where
  "concatenate0 (Arr2 k r) (Arr2 k' r') = (if k = k' then Inr (Arr2 k (r @ r')) else Inl ValueError)"
| "concatenate0 (Arr1 a) (Arr1 b) = Inr (Arr1 (a @ b))"
| "concatenate0 _ _ = Inl ValueError"

text \<open>\<^verbatim>\<open>np.setdiff1d(a, b)\<close>: the sorted, unique values of \<open>a\<close> that are not in \<open>b\<close>.\<close>

definition setdiff1d :: "nat list \<Rightarrow> nat list \<Rightarrow> nat list" where
  "setdiff1d a b = filter (\<lambda>p. p \<notin> set b) (sort (remdups a))"

text \<open>
  \<^verbatim>\<open>np.argsort(a)\<close>: the indices that sort \<open>a\<close>. Among equal keys the order of numpy's
  default sort is not fixed; the model keeps their order, which is the only order when the
  keys are distinct.
\<close>

definition argsort :: "nat list \<Rightarrow> nat list" where
  "argsort a = sort_key (\<lambda>i. a ! i) [0..<length a]"

text \<open>\<^verbatim>\<open>a[indices]\<close> raises IndexError on an index that is out of range.\<close>

definition take_idx :: "'a list \<Rightarrow> nat list \<Rightarrow> error + 'a list" where
  "take_idx xs idx =
     (if list_all (\<lambda>i. i < length xs) idx then Inr (map (\<lambda>i. xs ! i) idx) else Inl IndexError)"

fun take_rows :: "ndarray \<Rightarrow> nat list \<Rightarrow> error + ndarray" where
  "take_rows (Arr1 xs) idx = bind_err (take_idx xs idx) (\<lambda>ys. Inr (Arr1 ys))"
| "take_rows (Arr2 k rows) idx = bind_err (take_idx rows idx) (\<lambda>ys. Inr (Arr2 k ys))"

text \<open>\<^verbatim>\<open>a[:, 0]\<close> raises IndexError on a one-dimensional array and on one without columns.\<close>

fun column0 :: "ndarray \<Rightarrow> error + real list" where
  "column0 (Arr1 xs) = Inl IndexError"
| "column0 (Arr2 k rows) = (if k = 0 then Inl IndexError else Inr (map (\<lambda>r. r ! 0) rows))"

definition total_pixels :: nat where
  "total_pixels = 1855"

text \<open>
  Lines 125 to 183 of \<^verbatim>\<open>pre_process_fits\<close>: the missing pixel ids, the zero entries made
  for them, the merge and the sort by pixel id. The result is the updated
  \<^verbatim>\<open>container_dict\<close> and \<^verbatim>\<open>missing_pixels\<close>. The entry \<^verbatim>\<open>missing_entries["charge_std"]\<close>
  is built and never read: \<^verbatim>\<open>merged_charge_std\<close> is concatenated from the two
  \<^verbatim>\<open>charge\<close> arrays.
\<close>

record missing_entries =
  me_pixels_id :: "nat list"
  me_high_gain :: ndarray
  me_low_gain :: ndarray
  me_charge :: "real list"
  me_charge_std :: ndarray

definition merge_missing_pixels :: "container \<Rightarrow> error + (container \<times> nat list)" where
  "merge_missing_pixels container_dict =
     (let expected_pixels = [0..<total_pixels];
          existing_pixels = pixels_id container_dict;
          missing_pixels = setdiff1d expected_pixels existing_pixels;
          hg_shape = shape1 (high_gain container_dict);
          lg_shape = shape1 (low_gain container_dict);
          charge_std_shape = shape1 (charge_std container_dict);
          missing = \<lparr>me_pixels_id = missing_pixels,
                     me_high_gain = np_zeros2 (length missing_pixels) hg_shape,
                     me_low_gain = np_zeros2 (length missing_pixels) lg_shape,
                     me_charge = np_zeros (length missing_pixels),
                     me_charge_std = np_zeros2 (length missing_pixels) charge_std_shape\<rparr>;
          merged_pixel_ids = existing_pixels @ me_pixels_id missing
      in bind_err (concatenate0 (high_gain container_dict) (me_high_gain missing)) (\<lambda>merged_hg.
         bind_err (concatenate0 (low_gain container_dict) (me_low_gain missing)) (\<lambda>merged_lg.
         let merged_charge = charge container_dict @ me_charge missing;
             merged_charge_std = charge container_dict @ me_charge missing;
             sorted_indices = argsort merged_pixel_ids
         in bind_err (take_idx merged_pixel_ids sorted_indices) (\<lambda>ids.
            bind_err (take_rows merged_hg sorted_indices) (\<lambda>hg.
            bind_err (take_rows merged_lg sorted_indices) (\<lambda>lg.
            bind_err (take_idx merged_charge sorted_indices) (\<lambda>ch.
            bind_err (take_idx merged_charge_std sorted_indices) (\<lambda>chs.
            Inr (container_dict\<lparr>pixels_id := ids, high_gain := hg, low_gain := lg,
                                 charge := ch, charge_std := Arr1 chs\<rparr>,
                 missing_pixels)))))))))"

text \<open>
  \<^verbatim>\<open>np.divide(charge, high_gain, out=zeros, where=high_gain > 0)\<close>: under the guard the
  denominator is positive, so the quotient is an ordinary real.
\<close>

definition divide_n_pe :: "real list \<Rightarrow> real list \<Rightarrow> real list" where
  "divide_n_pe ch hg = map2 (\<lambda>c h. if 0 < h then c / h else 0) ch hg"

text \<open>
  \<^verbatim>\<open>np.sqrt(np.divide(charge_std * n_pe, charge, out=zeros, where=high_gain != 0))\<close>:
  the guard tests the gain, the denominator is the charge.
\<close>

definition divide_std :: "real list \<Rightarrow> real list \<Rightarrow> real list \<Rightarrow> real list \<Rightarrow> npfloat list" where
  "divide_std chs n_pe ch hg =
     map (\<lambda>(cs, n, c, h). fl_sqrt (if h \<noteq> 0 then fl_div (Fin (cs * n)) (Fin c) else Fin 0))
       (zip chs (zip n_pe (zip ch hg)))"

text \<open>The values of an array used as a one-dimensional operand.\<close>

fun flat1 :: "ndarray \<Rightarrow> error + real list" where
  "flat1 (Arr1 xs) = Inr xs"
| "flat1 (Arr2 k rows) = Inl ValueError"

record fits =
  out_n_pe :: "real marray"
  out_std_n_pe :: "npfloat list"
  out_sigma_masked :: "npfloat marray"
  out_dict_missing_pix :: tally
  out_high_gain :: ndarray
  out_low_gain :: ndarray
  out_charge :: "real list"

text \<open>
  \<^verbatim>\<open>pre_process_fits\<close> after the file has been read into \<^verbatim>\<open>container_dict\<close>; the
  plot is left out.
\<close>

definition pre_process_fits :: "container \<Rightarrow> error + fits" where
  "pre_process_fits container_in =
     bind_err (merge_missing_pixels container_in) (\<lambda>(container_dict, missing_pixels).
     bind_err (column0 (high_gain container_dict)) (\<lambda>hg0.
     bind_err (flat1 (charge_std container_dict)) (\<lambda>chs.
     let mask_check_hg = map (\<lambda>a. a \<le> 0) hg0;
         masked_hg = masked_array hg0 mask_check_hg;
         n_pe = divide_n_pe (charge container_dict) hg0;
         std_n_pe = divide_std chs n_pe (charge container_dict) hg0;
         mask = map fl_is_zero std_n_pe;
         sigma_masked = masked_array std_n_pe mask;
         n_pe_masked = masked_array n_pe mask;
         dict_missing_pix =
           \<lparr>missing_pixels_count = int (length missing_pixels),
            high_gain_zero_count = count_masked masked_hg - int (length missing_pixels),
            rejected_outliers = None\<rparr>
     in Inr \<lparr>out_n_pe = n_pe_masked, out_std_n_pe = std_n_pe, out_sigma_masked = sigma_masked,
             out_dict_missing_pix = dict_missing_pix,
             out_high_gain = high_gain container_dict,
             out_low_gain = low_gain container_dict,
             out_charge = charge container_dict\<rparr>)))"

section \<open>Rebinning in the error propagator\<close>

text \<open>
  \<^verbatim>\<open>np.arange(start, stop, step)\<close> has \<open>\<lceil>(stop - start) / step\<rceil>\<close> entries
  \<open>start + i * step\<close>.
\<close>

definition np_arange :: "real \<Rightarrow> real \<Rightarrow> real \<Rightarrow> real list" where
  "np_arange start stop step =
     map (\<lambda>i. start + real i * step) [0..<nat \<lceil>(stop - start) / step\<rceil>]"

text \<open>
  \<^verbatim>\<open>np.histogram(a, bins=edges, weights=w)\<close> for increasing edges: bin \<open>j\<close> is
  \<open>[edges ! j, edges ! (j + 1))\<close>, the last bin also holds its right edge; a bin's entry is
  the sum of the weights of its members (the number of members without weights).
\<close>

definition in_bin :: "real list \<Rightarrow> nat \<Rightarrow> real \<Rightarrow> bool" where
  "in_bin edges j t =
     (edges ! j \<le> t \<and> (t < edges ! (j + 1) \<or> (j + 2 = length edges \<and> t = edges ! (j + 1))))"

definition bin_members :: "real list \<Rightarrow> real list \<Rightarrow> nat \<Rightarrow> nat list" where
  "bin_members edges a j = filter (\<lambda>i. in_bin edges j (a ! i)) [0..<length a]"

definition histogram_weights :: "real list \<Rightarrow> real list \<Rightarrow> real list \<Rightarrow> real list" where
  "histogram_weights a edges w =
     map (\<lambda>j. sum_list (map (\<lambda>i. w ! i) (bin_members edges a j))) [0..<length edges - 1]"

definition histogram_count :: "real list \<Rightarrow> real list \<Rightarrow> int list" where
  "histogram_count a edges =
     map (\<lambda>j. int (length (bin_members edges a j))) [0..<length edges - 1]"

text \<open>\<^verbatim>\<open>np.where(count > 0, sum / count, np.nan)\<close>\<close>

definition where_mean :: "int list \<Rightarrow> real list \<Rightarrow> npfloat list" where
  "where_mean count_in totals =
     map2 (\<lambda>c s. if 0 < c then fl_div (Fin s) (Fin (real_of_int c)) else NaN) count_in totals"

definition rad2deg :: "real \<Rightarrow> real" where
  "rad2deg x = x * 180 / pi"

text \<open>
  The branch \<^verbatim>\<open>if rebin:\<close> of \<^verbatim>\<open>error_propagation_compute\<close>. The model values \<open>y\<close> and
  their uncertainties \<open>yerr_prop\<close> come from the external \<^verbatim>\<open>propagate\<close>; \<open>values\<close> are
  the fitted parameters. \<^verbatim>\<open>np.min\<close> of an empty array raises ValueError. The result is
  \<^verbatim>\<open>(bin_centers, rebinned_y, rebinned_y_err)\<close>.
\<close>

definition theta_of :: "real list \<Rightarrow> real list \<Rightarrow> real list \<Rightarrow> real list" where
  "theta_of pix_x pix_y vals =
     map2 (\<lambda>x y. rad2deg (sqrt ((x - vals ! 1) ^ 2 + (y - vals ! 2) ^ 2) / 12)) pix_x pix_y"

definition rebin_theta ::
  "real list \<Rightarrow> real list \<Rightarrow> real list \<Rightarrow> error + (real list \<times> npfloat list \<times> npfloat list)" where
  "rebin_theta theta y yerr_prop =
     (if theta = [] then Inl ValueError
      else
        let bins = np_arange (Min (set theta)) (Max (set theta) + 0.1) 0.1;
            sum_y = histogram_weights theta bins y;
            sum_y_err = histogram_weights theta bins yerr_prop;
            count_h = histogram_count theta bins;
            rebinned_y = where_mean count_h sum_y;
            rebinned_y_err = where_mean count_h sum_y_err;
            bin_centers = map2 (\<lambda>a b. 0.5 * (a + b)) (butlast bins) (tl bins)
        in Inr (bin_centers, rebinned_y, rebinned_y_err))"

definition error_propagation_rebin ::
  "real list \<Rightarrow> real list \<Rightarrow> real list \<Rightarrow> real list \<Rightarrow> real list \<Rightarrow>
     error + (real list \<times> npfloat list \<times> npfloat list)" where
  "error_propagation_rebin pix_x pix_y vals y yerr_prop =
     rebin_theta (theta_of pix_x pix_y vals) y yerr_prop"

section \<open>Flat-field coefficients\<close>

text \<open>
  \<^verbatim>\<open>compute_ff_coefs(charges, gains)\<close> on the plain array \<^verbatim>\<open>charges\<close> that the script
  passes (it has no mask, so nothing is masked by \<^verbatim>\<open>masked_where\<close>). The division of
  the two masked arrays masks the entries with a zero gain, which are the entries that the
  \<^verbatim>\<open>where\<close> guard skips. The function returns \<^verbatim>\<open>eff\<close>; its local \<^verbatim>\<open>mean\<close> is
  \<open>m_mean\<close> of the result.
\<close>

definition relative_signal :: "real list \<Rightarrow> real list \<Rightarrow> real option list" where
  "relative_signal charges g0 = map2 (\<lambda>c g. m_div (Some c) (Some g)) charges g0"

definition compute_ff_coefs :: "real list \<Rightarrow> ndarray \<Rightarrow> error + real option list" where
  "compute_ff_coefs charges gains =
     bind_err (column0 gains) (\<lambda>g0.
       let rs = relative_signal charges g0;
           eff = map (\<lambda>c. m_div c (m_mean rs)) rs
       in Inr eff)"

text \<open>
  \<^verbatim>\<open>compute_ff_coefs_model(data, data_std, model, model_std)\<close> with the masked
  \<^verbatim>\<open>data\<close>, the plain \<^verbatim>\<open>data_std\<close> and the plain model arrays that the script passes.
  \<^verbatim>\<open>np.sqrt\<close> of a masked array masks the negative entries.
\<close>

fun m_add_fl :: "npfloat \<Rightarrow> real option \<Rightarrow> npfloat option" where
  "m_add_fl a (Some b) = Some (fl_add a (Fin b))"
| "m_add_fl a None = None"

fun m_sqrt_fl :: "npfloat option \<Rightarrow> npfloat option" where
  "m_sqrt_fl (Some (Fin x)) = (if x < 0 then None else Some (Fin (sqrt x)))"
| "m_sqrt_fl (Some PInf) = Some PInf"
| "m_sqrt_fl (Some NInf) = None"
| "m_sqrt_fl (Some NaN) = Some NaN"
| "m_sqrt_fl None = None"

definition m_mul_plain :: "real option \<Rightarrow> real \<Rightarrow> real option" where
  "m_mul_plain c f = map_option (\<lambda>d. d * f) c"

definition std_FF_term :: "real option \<Rightarrow> npfloat \<Rightarrow> real \<Rightarrow> real \<Rightarrow> npfloat option" where
  "std_FF_term d d_std mo mo_std =
     m_sqrt_fl (m_add_fl (fl_mul (fl_div d_std (Fin mo)) (fl_div d_std (Fin mo)))
                  (m_sq (m_div (m_mul_plain d mo_std) (Some (mo ^ 2)))))"

definition compute_ff_coefs_model ::
  "real marray \<Rightarrow> npfloat list \<Rightarrow> real list \<Rightarrow> real list \<Rightarrow> real option list \<times> npfloat option list" where
  "compute_ff_coefs_model data_in data_std model model_std =
     (let FF_coefs = map2 (\<lambda>d mo. m_div d (Some mo)) (cells data_in) model;
          std_FF = map (\<lambda>(d, ds, mo, ms). std_FF_term d ds mo ms)
                     (zip (cells data_in) (zip data_std (zip model model_std)))
      in (FF_coefs, std_FF))"

section \<open>Array objects in a store, and the main script up to the first tally\<close>

text \<open>
  Whether a callee changes the caller's arrays depends on which buffers are shared, so the
  first fitter is also modelled on references. A store holds the data buffers and the mask
  buffers of the arrays; a masked array object refers to one data buffer and one mask
  buffer; \<open>next_buf\<close> is the first address that is not in use.
\<close>

record store =
  real_bufs :: "nat \<Rightarrow> real list"
  fl_bufs :: "nat \<Rightarrow> npfloat list"
  mask_bufs :: "nat \<Rightarrow> bool list"
  next_buf :: nat

record ma_ref =
  data_at :: nat
  mask_at :: nat

definition load_real :: "store \<Rightarrow> ma_ref \<Rightarrow> real marray" where
  "load_real st r = \<lparr>mdata = real_bufs st (data_at r), mmask = mask_bufs st (mask_at r)\<rparr>"

definition load_fl :: "store \<Rightarrow> ma_ref \<Rightarrow> npfloat marray" where
  "load_fl st r = \<lparr>mdata = fl_bufs st (data_at r), mmask = mask_bufs st (mask_at r)\<rparr>"

text \<open>
  \<^verbatim>\<open>ma.masked_array(a, mask=m)\<close> of a masked array \<open>a\<close>: the new object shares the
  data buffer of \<open>a\<close> (no copy is asked for) and gets a new mask buffer, the result of
  \<^verbatim>\<open>np.logical_or(m, a.mask)\<close>.
\<close>

definition masked_array_ref :: "store \<Rightarrow> ma_ref \<Rightarrow> bool list \<Rightarrow> ma_ref \<times> store" where
  "masked_array_ref st a m =
     (let b = next_buf st
      in (\<lparr>data_at = data_at a, mask_at = b\<rparr>,
          st\<lparr>mask_bufs := (mask_bufs st)(b := map2 (\<lambda>x y. x \<or> y) m (mask_bufs st (mask_at a))),
             next_buf := Suc b\<rparr>))"

text \<open>\<^verbatim>\<open>define_delete_out\<close> on references: \<^verbatim>\<open>sigma\<close> is rebuilt first, then \<^verbatim>\<open>data\<close>.\<close>

definition define_delete_out_ref ::
  "np_arith \<Rightarrow> store \<Rightarrow> ma_ref \<Rightarrow> ma_ref \<Rightarrow> (ma_ref \<times> ma_ref \<times> bool list) \<times> store" where
  "define_delete_out_ref ar st sigma data_in =
     (let outliers = outlier_flags ar (load_real st data_in)
      in case masked_array_ref st sigma outliers of (sigma', st1) \<Rightarrow>
         case masked_array_ref st1 data_in outliers of (data', st2) \<Rightarrow>
           ((data', sigma', outliers), st2))"

text \<open>
  \<^verbatim>\<open>optimize_with_outlier_rejection(sigma, data)\<close> on references: the names
  \<^verbatim>\<open>n_pe\<close> and \<^verbatim>\<open>sigma_masked\<close> that it assigns are local variables of the function.
\<close>

definition optimize_with_outlier_rejection_ref ::
  "np_arith \<Rightarrow> minimiser \<Rightarrow> camera_pdf \<Rightarrow> store \<Rightarrow> ma_ref \<Rightarrow> ma_ref \<Rightarrow>
     (ma_ref \<times> real list \<times> fit_result \<times> real option list) \<times> store" where
  "optimize_with_outlier_rejection_ref ar minimise pdf st sigma data_in =
     (case define_delete_out_ref ar st sigma data_in of ((n_pe, sigma_masked, mask_upd), st') \<Rightarrow>
        let minuit = minimise
              (\<lambda>a. LSQ_wrap pdf (load_real st' n_pe) (load_fl st' sigma_masked)
                     (a ! 0) (a ! 1) (a ! 2) (a ! 3))
              [1000, 0, 0, 1.5] [];
            v = fit_values minuit;
            model = Gaussian_model pdf (v ! 0) (v ! 1) (v ! 2) (v ! 3) (v ! 3);
            residuals = residual_image (load_real st' n_pe) model
        in ((n_pe, model, minuit, residuals), st'))"

text \<open>
  The module-level variables after \<^verbatim>\<open>pre_process_fits\<close> and the first fit.
  \<^verbatim>\<open>pre_process_fits\<close> builds \<^verbatim>\<open>sigma_masked\<close> and \<^verbatim>\<open>n_pe\<close> from the same list
  \<^verbatim>\<open>mask\<close>, each with a mask buffer of its own. The call binds
  \<^verbatim>\<open>data_1, fit_1, minuit_1, residuals_1\<close>; the tally is then written from the
  module-level \<^verbatim>\<open>sigma_masked\<close>, read from the store as the fitter left it. The error
  propagation and the peak characterization between the two read their arguments only.
\<close>

record session =
  s_store :: store
  s_n_pe :: ma_ref
  s_std_n_pe :: "npfloat list"
  s_sigma_masked :: ma_ref
  s_dict_missing_pix :: tally
  s_data_1 :: ma_ref
  s_fit_1 :: "real list"
  s_minuit_1 :: fit_result

definition initial_store :: "fits \<Rightarrow> store" where
  "initial_store r =
     \<lparr>real_bufs = (\<lambda>a. [])(0 := mdata (out_n_pe r)),
      fl_bufs = (\<lambda>a. [])(1 := mdata (out_sigma_masked r)),
      mask_bufs = (\<lambda>a. [])(2 := mmask (out_sigma_masked r), 3 := mmask (out_n_pe r)),
      next_buf = 4\<rparr>"

definition main_first_fit ::
  "np_arith \<Rightarrow> minimiser \<Rightarrow> camera_pdf \<Rightarrow> container \<Rightarrow> error + session" where
  "main_first_fit ar minimise pdf container_in =
     bind_err (pre_process_fits container_in) (\<lambda>r.
       let st0 = initial_store r;
           n_pe = \<lparr>data_at = 0, mask_at = 3\<rparr>;
           sigma_masked = \<lparr>data_at = 1, mask_at = 2\<rparr>
       in case optimize_with_outlier_rejection_ref ar minimise pdf st0 sigma_masked n_pe of
         ((data_1, fit_1, minuit_1, residuals_1), st1) \<Rightarrow>
           let d = out_dict_missing_pix r;
               d' = d\<lparr>rejected_outliers :=
                        Some (1855 - ma_count (load_fl st1 sigma_masked)
                              - missing_pixels_count d - high_gain_zero_count d)\<rparr>
           in Inr \<lparr>s_store = st1, s_n_pe = n_pe, s_std_n_pe = out_std_n_pe r,
                   s_sigma_masked = sigma_masked, s_dict_missing_pix = d',
                   s_data_1 = data_1, s_fit_1 = fit_1, s_minuit_1 = minuit_1\<rparr>)"

section \<open>The objectives as the specification writes them, and example inputs\<close>

text \<open>
  The pixels that enter an objective: the triples (n_pe, model value, sigma) of the pixels
  that are masked in neither array and whose sigma is finite.
\<close>

definition row_of :: "real option \<times> real \<times> npfloat option \<Rightarrow> (real \<times> real \<times> real) list" where
  "row_of = (\<lambda>(d, f, s). case (d, s) of (Some x, Some (Fin y)) \<Rightarrow> [(x, f, y)] | _ \<Rightarrow> [])"

definition unmasked_pixels ::
  "real marray \<Rightarrow> real list \<Rightarrow> npfloat marray \<Rightarrow> (real \<times> real \<times> real) list" where
  "unmasked_pixels n_pe model sigma =
     concat (map row_of (zip (cells n_pe) (zip model (cells sigma))))"

text \<open>
  The specification's formula, with the logarithm added:
  \<open>\<Sum> [(n_pe - f)\<^sup>2 / (sigma\<^sup>2 + v) + ln (sigma\<^sup>2 / (sigma\<^sup>2 + v))]\<close>.
\<close>

definition spec_variance_objective :: "(real \<times> real \<times> real) list \<Rightarrow> real \<Rightarrow> real" where
  "spec_variance_objective px v =
     sum_list (map (\<lambda>(n, f, s). (n - f) ^ 2 / (s ^ 2 + v) + ln (s ^ 2 / (s ^ 2 + v))) px)"

text \<open>The same sum with the logarithm subtracted.\<close>

definition nll_variance_objective :: "(real \<times> real \<times> real) list \<Rightarrow> real \<Rightarrow> real" where
  "nll_variance_objective px v =
     sum_list (map (\<lambda>(n, f, s). (n - f) ^ 2 / (s ^ 2 + v) - ln (s ^ 2 / (s ^ 2 + v))) px)"

text \<open>A camera of \<open>n\<close> pixels on which the density is 1 everywhere, for concrete instances.\<close>

definition uniform_pdf :: "nat \<Rightarrow> camera_pdf" where
  "uniform_pdf n x y std_x std_y = replicate n 1"





text \<open>Gains of three pixels with one channel, the third pixel with a zero gain.\<close>

definition example_gains :: ndarray where
  "example_gains = Arr2 1 [ [1], [2], [0] ]"

text \<open>
  A well-formed gain container: the gains are two-dimensional with at least one channel and
  one row per pixel id, the charge has one value per pixel id. The charge spread may have
  any shape.
\<close>

definition wf_container :: "container \<Rightarrow> bool" where
  "wf_container c =
     (case (high_gain c, low_gain c) of
        (Arr2 k hg, Arr2 k' lg) \<Rightarrow>
          0 < k \<and> 0 < k' \<and> length hg = length (pixels_id c) \<and> length lg = length (pixels_id c)
          \<and> length (charge c) = length (pixels_id c)
          \<and> list_all (\<lambda>r. length r = k) hg \<and> list_all (\<lambda>r. length r = k') lg
      | _ \<Rightarrow> False)"

text \<open>
  A container with the single pixel 0 (gain \<open>h\<close>, charge \<open>c\<close>, charge spread \<open>cs\<close>), and a
  minimiser that returns its start values, for concrete instances.
\<close>

definition single_pixel :: "real \<Rightarrow> real \<Rightarrow> real \<Rightarrow> container" where
  "single_pixel h c cs =
     \<lparr>pixels_id = [0], high_gain = Arr2 1 [ [h] ], low_gain = Arr2 1 [ [1] ], charge = [c],
      charge_std = Arr1 [cs], is_valid = [True]\<rparr>"

text \<open>The same pixel with a charge spread of two columns.\<close>

definition two_column_spread :: container where
  "two_column_spread = (single_pixel 2 8 3)\<lparr>charge_std := Arr2 2 [ [3, 1] ]\<rparr>"

text \<open>
  Seventeen present pixels with gain 1, sixteen with charge 1 and the last with charge 18:
  their photoelectron counts have mean 2 and standard deviation 4, so the last one is more
  than three standard deviations from the mean.
\<close>

definition outlier_container :: container where
  "outlier_container =
     \<lparr>pixels_id = [0..<17], high_gain = Arr2 1 (replicate 17 [1]),
      low_gain = Arr2 1 (replicate 17 [1]), charge = replicate 16 1 @ [18],
      charge_std = Arr1 (replicate 17 1), is_valid = replicate 17 True\<rparr>"

definition start_minimiser :: minimiser where
  "start_minimiser objective start limits =
     \<lparr>fit_values = start, fit_errors = [], fit_covariance = [], fit_is_valid = False\<rparr>"

section \<open>Properties of the fit objectives\<close>

lemma variance_term_zero: "variance_term 0 d f s = lsq_term d f s"
proof (cases d)
  case None
  then show ?thesis by (simp add: variance_term_def lsq_term_def m_sub_plain_def m_sq_def)
next
  case (Some x)
  show ?thesis
  proof (cases s)
    case None
    then show ?thesis by (simp add: variance_term_def lsq_term_def m_add_scalar_def)
  next
    case (Some t)
    then show ?thesis using \<open>d = Some x\<close>
      by (cases t) (simp_all add: variance_term_def lsq_term_def m_add_scalar_def m_sub_plain_def m_sq_def)
  qed
qed

lemma LS_variance_at_zero:
  "LS_variance pdf n_pe sigma a0 a1 a2 a3 0 = LSQ pdf n_pe sigma a0 a1 a2 a3"
  by (simp add: LS_variance_def LSQ_def variance_term_zero)

lemma variance_term_row:
  assumes "0 \<le> v" "y \<noteq> 0"
  shows "variance_term v (Some x) f (Some (Fin y)) =
         Some ((x - f) ^ 2 / (y ^ 2 + v) - ln (y ^ 2 / (y ^ 2 + v)))"
proof -
  have p: "0 < y ^ 2" using assms by simp
  then have q: "y ^ 2 + v \<noteq> 0" using assms by linarith
  have "0 < y ^ 2 / (y ^ 2 + v)" using p assms by (intro divide_pos_pos) linarith+
  then have r: "\<not> y ^ 2 / (y ^ 2 + v) \<le> 0" by linarith
  have a: "m_div (m_sq (m_sub_plain (Some x) f)) (m_add_scalar (m_sq_fl (Some (Fin y))) v)
             = Some ((x - f) ^ 2 / (y ^ 2 + v))"
    using q by (simp add: m_add_scalar_def m_sub_plain_def m_sq_def)
  have b: "m_log (m_div (m_sq_fl (Some (Fin y))) (m_add_scalar (m_sq_fl (Some (Fin y))) v))
             = Some (ln (y ^ 2 / (y ^ 2 + v)))"
    using q r by (simp add: m_add_scalar_def)
  show ?thesis unfolding variance_term_def a b by simp
qed

lemma variance_term_masked:
  "d = None \<or> s = None \<or> s = Some PInf \<or> s = Some NInf \<or> s = Some NaN \<Longrightarrow>
     variance_term v d f s = None"
  by (auto simp: variance_term_def m_add_scalar_def m_sub_plain_def m_sq_def)

lemma objective_rows:
  assumes "0 \<le> v"
    and "list_all (\<lambda>(n, f, s). s \<noteq> 0) (concat (map row_of zs))"
  shows "sum_list (map (\<lambda>c. case c of None \<Rightarrow> 0 | Some x \<Rightarrow> x)
                     (map (\<lambda>(d, f, s). variance_term v d f s) zs))
           = nll_variance_objective (concat (map row_of zs)) v
         \<and> (list_all (\<lambda>c. c = None) (map (\<lambda>(d, f, s). variance_term v d f s) zs)
              \<longleftrightarrow> concat (map row_of zs) = [])"
  using assms(2)
proof (induction zs)
  case Nil
  then show ?case by (simp add: nll_variance_objective_def)
next
  case (Cons z zs)
  obtain d f s where z: "z = (d, f, s)" by (cases z) auto
  have tl: "list_all (\<lambda>(n, f, s). s \<noteq> 0) (concat (map row_of zs))"
    using Cons.prems by simp
  note IH = Cons.IH[OF tl]
  consider (row) x y where "d = Some x" "s = Some (Fin y)"
    | (masked) "d = None \<or> s = None \<or> s = Some PInf \<or> s = Some NInf \<or> s = Some NaN"
    by (cases d; cases s) (auto, metis npfloat.exhaust)
  then show ?case
  proof cases
    case row
    then have r: "row_of z = [(x, f, y)]" by (simp add: z row_of_def)
    then have "y \<noteq> 0" using Cons.prems by simp
    from variance_term_row[OF assms(1) this]
    have "variance_term v d f s = Some ((x - f) ^ 2 / (y ^ 2 + v) - ln (y ^ 2 / (y ^ 2 + v)))"
      using row by simp
    then show ?thesis using IH r
      by (simp add: z nll_variance_objective_def)
  next
    case masked
    then have r: "row_of z = []" by (auto simp: z row_of_def split: option.splits)
    have "variance_term v d f s = None" using masked by (rule variance_term_masked)
    then show ?thesis using IH r by (simp add: z)
  qed
qed

lemma m_sum_variance_rows:
  assumes "0 \<le> v"
    and "list_all (\<lambda>(n, f, s). s \<noteq> 0) (concat (map row_of zs))"
    and "concat (map row_of zs) \<noteq> []"
  shows "m_sum (map (\<lambda>(d, f, s). variance_term v d f s) zs)
           = Some (nll_variance_objective (concat (map row_of zs)) v)"
  using objective_rows[OF assms(1,2)] assms(3) unfolding m_sum_def by simp

text \<open>
  Claim C1, as amended. Over the pixels that are not masked (with nonzero sigma and
  \<open>v \<ge> 0\<close>, at least one such pixel), the objective of \<^verbatim>\<open>LS_variance\<close> and of
  \<^verbatim>\<open>LSQ_wrap_var\<close> is the sum of \<open>(n_pe - f)\<^sup>2 / (sigma\<^sup>2 + v) - ln (sigma\<^sup>2 / (sigma\<^sup>2 + v))\<close>:
  the logarithm is subtracted, not added.
\<close>

theorem variance_objective_subtracts_log:
  assumes "0 \<le> v"
    and "list_all (\<lambda>(n, f, s). s \<noteq> 0) (unmasked_pixels n_pe (Gaussian_model pdf A x y w w) sigma)"
    and "unmasked_pixels n_pe (Gaussian_model pdf A x y w w) sigma \<noteq> []"
  shows "LS_variance pdf n_pe sigma A x y w v
           = Some (nll_variance_objective
                     (unmasked_pixels n_pe (Gaussian_model pdf A x y w w) sigma) v)
         \<and> LSQ_wrap_var pdf n_pe sigma (A, x, y, w, v)
           = Some (nll_variance_objective
                     (unmasked_pixels n_pe (Gaussian_model pdf A x y w w) sigma) v)"
  using m_sum_variance_rows[OF assms(1), of "zip (cells n_pe) (zip (Gaussian_model pdf A x y w w) (cells sigma))"]
    assms(2,3)
  unfolding LS_variance_def LSQ_wrap_var_def unmasked_pixels_def by simp

lemma one_pixel_rows:
  "unmasked_pixels (masked_array [1] [False]) (Gaussian_model (uniform_pdf 1) 1 0 0 1 1)
     (masked_array [Fin 1] [False]) = [(1, 1, 1)]"
  by (simp add: unmasked_pixels_def masked_array_def cells_def Gaussian_model_def
      uniform_pdf_def row_of_def)

theorem variance_objective_subtracts_log_witness:
  "LS_variance (uniform_pdf 1) (masked_array [1] [False]) (masked_array [Fin 1] [False]) 1 0 0 1 1
     = Some (ln 2)
   \<and> LSQ_wrap_var (uniform_pdf 1) (masked_array [1] [False]) (masked_array [Fin 1] [False])
       (1, 0, 0, 1, 1) = Some (ln 2)"
  using variance_objective_subtracts_log[of 1 "masked_array [1] [False]" "uniform_pdf 1" 1 0 0 1
      "masked_array [Fin 1] [False]", unfolded one_pixel_rows]
  by (simp add: nll_variance_objective_def ln_div)

theorem variance_objective_adds_log_counterexample:
  "LS_variance (uniform_pdf 1) (masked_array [1] [False]) (masked_array [Fin 1] [False]) 1 0 0 1 1
     \<noteq> Some (spec_variance_objective
               (unmasked_pixels (masked_array [1] [False]) (Gaussian_model (uniform_pdf 1) 1 0 0 1 1)
                  (masked_array [Fin 1] [False])) 1)"
proof -
  have l: "LS_variance (uniform_pdf 1) (masked_array [1] [False]) (masked_array [Fin 1] [False])
             1 0 0 1 1 = Some (- ln (1 / 2))"
    by (simp add: LS_variance_def masked_array_def cells_def Gaussian_model_def uniform_pdf_def
        variance_term_def m_sub_plain_def m_sq_def m_add_scalar_def m_sum_def)
  have r: "spec_variance_objective
             (unmasked_pixels (masked_array [1] [False]) (Gaussian_model (uniform_pdf 1) 1 0 0 1 1)
                (masked_array [Fin 1] [False])) 1 = ln (1 / 2)"
    unfolding one_pixel_rows by (simp add: spec_variance_objective_def)
  have "ln (1 / 2 :: real) < 0" by (simp add: ln_div)
  then show ?thesis unfolding l r by simp
qed

text \<open>
  Claim C4. With the intrinsic variance at zero, \<^verbatim>\<open>LS_variance\<close> is \<^verbatim>\<open>LSQ\<close>, for
  every parameter vector and all data in which no sigma that is not masked is zero. (A zero
  sigma is masked by the division in both objectives, so the equation holds there too.)
\<close>

theorem LS_variance_zero_is_LSQ:
  assumes "list_all (\<lambda>c. c \<noteq> Some (Fin 0)) (cells sigma)"
  shows "LS_variance pdf n_pe sigma A cx cy w 0 = LSQ pdf n_pe sigma A cx cy w"
  by (rule LS_variance_at_zero)

theorem LS_variance_zero_is_LSQ_witness:
  "list_all (\<lambda>c. c \<noteq> Some (Fin 0)) (cells (masked_array [Fin 2, Fin 0] [False, True]))
   \<and> LS_variance (uniform_pdf 2) (masked_array [3, 0] [False, True])
       (masked_array [Fin 2, Fin 0] [False, True]) 1 0 0 1 0 = Some 1
   \<and> LSQ (uniform_pdf 2) (masked_array [3, 0] [False, True])
       (masked_array [Fin 2, Fin 0] [False, True]) 1 0 0 1 = Some 1"
proof -
  have h: "list_all (\<lambda>c. c \<noteq> Some (Fin 0)) (cells (masked_array [Fin 2, Fin 0] [False, True]))"
    by (simp add: masked_array_def cells_def)
  have q: "LSQ (uniform_pdf 2) (masked_array [3, 0] [False, True])
             (masked_array [Fin 2, Fin 0] [False, True]) 1 0 0 1 = Some 1"
    by (simp add: LSQ_def masked_array_def cells_def Gaussian_model_def uniform_pdf_def
        lsq_term_def m_sub_plain_def m_sq_def m_sum_def numeral_2_eq_2)
  show ?thesis
    using h q LS_variance_zero_is_LSQ[OF h, of "uniform_pdf 2" "masked_array [3, 0] [False, True]" 1 0 0 1]
    by simp
qed

section \<open>Properties of the flat-field coefficients\<close>

lemma compressed_map_div:
  "m \<noteq> 0 \<Longrightarrow> compressed (map (\<lambda>c. m_div c (Some m)) cs) = map (\<lambda>x. x / m) (compressed cs)"
  by (induction cs) (auto simp: compressed_def split: option.splits)

lemma sum_list_div: "sum_list (map (\<lambda>x. x / m) xs) = sum_list xs / (m::real)"
  by (induction xs) (auto simp: add_divide_distrib)

lemma m_mean_normalised:
  assumes "m_mean cs = Some m" "m \<noteq> 0"
  shows "m_mean (map (\<lambda>c. m_div c (m_mean cs)) cs) = Some 1"
proof -
  have ne: "compressed cs \<noteq> []" using assms(1) by (auto simp: m_mean_def Let_def split: if_splits)
  have mv: "m = sum_list (compressed cs) / real (length (compressed cs))"
    using assms(1) ne by (simp add: m_mean_def Let_def)
  have n0: "real (length (compressed cs)) \<noteq> 0" using ne by simp
  have "sum_list (compressed cs) / m / real (length (compressed cs))
          = (sum_list (compressed cs) / real (length (compressed cs))) / m"
    by (simp add: divide_divide_eq_left mult.commute)
  also have "\<dots> = 1" using assms(2) unfolding mv[symmetric] by simp
  finally have one: "sum_list (compressed cs) / m / real (length (compressed cs)) = 1" .
  have c: "compressed (map (\<lambda>c. m_div c (m_mean cs)) cs) = map (\<lambda>x. x / m) (compressed cs)"
    unfolding assms(1) using assms(2) by (rule compressed_map_div)
  have "m_mean (map (\<lambda>c. m_div c (m_mean cs)) cs)
          = Some (sum_list (compressed cs) / m / real (length (compressed cs)))"
    unfolding m_mean_def[of "map (\<lambda>c. m_div c (m_mean cs)) cs"] c Let_def
    using ne by (simp add: sum_list_div)
  then show ?thesis unfolding one .
qed

text \<open>
  Claim C7. For a non-degenerate input of the raw-ratio calculator (the relative signal has
  a mean, which is not zero) the returned \<^verbatim>\<open>eff\<close> has mean exactly 1, in exact
  arithmetic.
\<close>

theorem raw_ratio_mean_is_one:
  assumes "column0 gains = Inr g0"
    and "m_mean (relative_signal charges g0) = Some m" and "m \<noteq> 0"
  shows "\<exists>eff. compute_ff_coefs charges gains = Inr eff \<and> m_mean eff = Some 1"
  using m_mean_normalised[OF assms(2,3)] assms(1)
  by (simp add: compute_ff_coefs_def bind_err_def Let_def)

theorem raw_ratio_mean_is_one_witness:
  "column0 example_gains = Inr [1, 2, 0]
   \<and> m_mean (relative_signal [2, 6, 5] [1, 2, 0]) = Some (5 / 2)
   \<and> compute_ff_coefs [2, 6, 5] example_gains = Inr [Some (4 / 5), Some (6 / 5), None]
   \<and> m_mean [Some (4 / 5), Some (6 / 5), None] = Some 1"
proof -
  have a: "column0 example_gains = Inr [1, 2, 0]" by (simp add: example_gains_def)
  have b: "m_mean (relative_signal [2, 6, 5] [1, 2, 0]) = Some (5 / 2)"
    by (simp add: relative_signal_def m_mean_def compressed_def)
  have c: "compute_ff_coefs [2, 6, 5] example_gains = Inr [Some (4 / 5), Some (6 / 5), None]"
    using b by (simp add: compute_ff_coefs_def a bind_err_def relative_signal_def)
  show ?thesis using raw_ratio_mean_is_one[OF a b] a b c by simp
qed

lemma std_FF_term_finite:
  assumes "mo \<noteq> 0"
  shows "std_FF_term (Some d) (Fin ds) mo ms
           = Some (Fin (sqrt ((ds / mo) ^ 2 + (d * ms / mo ^ 2) ^ 2)))"
proof -
  have "\<not> (ds / mo) * (ds / mo) + (d * ms / mo ^ 2) ^ 2 < 0"
    by (simp add: not_less)
  then show ?thesis using assms
    by (simp add: std_FF_term_def m_mul_plain_def m_sq_def power2_eq_square)
qed

text \<open>
  Claim C8. For a pixel that is not masked, with a finite \<^verbatim>\<open>data_std\<close> and a nonzero
  model value, the uncertainty returned by \<^verbatim>\<open>compute_ff_coefs_model\<close> is
  \<open>sqrt ((data_std / model)\<^sup>2 + (data * model_std / model\<^sup>2)\<^sup>2)\<close>; at model 1, data 1,
  data_std 0.1 and model_std 0.05 this is \<open>sqrt (0.1\<^sup>2 + 0.05\<^sup>2)\<close>, within 0.0001 of
  0.1118.
\<close>

theorem std_FF_formula:
  assumes "i < length (mdata data_in)" "length (mmask data_in) = length (mdata data_in)"
    and "length data_std = length (mdata data_in)" "length model = length (mdata data_in)"
    and "length model_std = length (mdata data_in)"
    and "\<not> mmask data_in ! i" "data_std ! i = Fin ds" "model ! i \<noteq> 0"
  shows "snd (compute_ff_coefs_model data_in data_std model model_std) ! i
           = Some (Fin (sqrt ((ds / model ! i) ^ 2
                              + (mdata data_in ! i * model_std ! i / (model ! i) ^ 2) ^ 2)))"
proof -
  have c: "cells data_in ! i = Some (mdata data_in ! i)" "length (cells data_in) = length (mdata data_in)"
    using assms by (simp_all add: cells_def)
  show ?thesis
    using assms c std_FF_term_finite[OF assms(8), of "mdata data_in ! i" ds "model_std ! i"]
    by (simp add: compute_ff_coefs_model_def)
qed

lemma sqrt_0125: "\<bar>sqrt ((1 / 10) ^ 2 + (5 / 100) ^ 2) - 1118 / 10000\<bar> < (1 / 10000 :: real)"
proof -
  have lo: "(1118 / 10000 :: real) < sqrt ((1 / 10) ^ 2 + (5 / 100) ^ 2)"
    by (rule real_less_rsqrt) (simp add: power2_eq_square)
  have hi: "sqrt ((1 / 10) ^ 2 + (5 / 100) ^ 2) < (1119 / 10000 :: real)"
    by (rule real_less_lsqrt) (simp_all add: power2_eq_square)
  show ?thesis using lo hi by simp
qed

theorem std_FF_formula_witness:
  "snd (compute_ff_coefs_model (masked_array [1] [False]) [Fin (1 / 10)] [1] [5 / 100]) ! 0
     = Some (Fin (sqrt ((1 / 10) ^ 2 + (5 / 100) ^ 2)))
   \<and> \<bar>sqrt ((1 / 10) ^ 2 + (5 / 100) ^ 2) - 1118 / 10000\<bar> < (1 / 10000 :: real)"
  using std_FF_formula[of 0 "masked_array [1] [False]" "[Fin (1 / 10)]" "[1]" "[5 / 100]" "1 / 10"]
    sqrt_0125
  by (simp add: masked_array_def)

section \<open>Properties of the rebinning\<close>

lemma where_mean_nth:
  assumes "j < length cs" "length ts = length cs"
  shows "where_mean cs ts ! j = (if 0 < cs ! j then fl_div (Fin (ts ! j)) (Fin (real_of_int (cs ! j))) else NaN)"
  using assms by (simp add: where_mean_def)

lemma rebin_bin:
  assumes "j < length edges - 1"
  shows "where_mean (histogram_count a edges) (histogram_weights a edges w) ! j
           = (if bin_members edges a j = [] then NaN
              else Fin (sum_list (map (\<lambda>i. w ! i) (bin_members edges a j))
                        / real (length (bin_members edges a j))))"
proof -
  have l: "j < length (histogram_count a edges)"
     "length (histogram_weights a edges w) = length (histogram_count a edges)"
    using assms by (simp_all add: histogram_count_def histogram_weights_def)
  have c: "histogram_count a edges ! j = int (length (bin_members edges a j))"
    using assms by (simp add: histogram_count_def)
  have s: "histogram_weights a edges w ! j = sum_list (map (\<lambda>i. w ! i) (bin_members edges a j))"
    using assms by (simp add: histogram_weights_def)
  show ?thesis unfolding where_mean_nth[OF l] c s by simp
qed

text \<open>
  Claim C9. In the rebinning of \<^verbatim>\<open>error_propagation_compute\<close>, a bin without members
  has NaN (and so never zero) in the rebinned model value and in the rebinned uncertainty,
  and a bin with members has the arithmetic mean of its members' model values and of their
  uncertainties.
\<close>

theorem rebin_empty_bin_is_nan:
  assumes "theta = theta_of pix_x pix_y vals" and "theta \<noteq> []"
    and "length y = length theta" and "length yerr = length theta"
    and "bins = np_arange (Min (set theta)) (Max (set theta) + 0.1) 0.1"
    and "j < length bins - 1"
  shows "\<exists>centers ry rye. error_propagation_rebin pix_x pix_y vals y yerr = Inr (centers, ry, rye) \<and>
           (bin_members bins theta j = [] \<longrightarrow> ry ! j = NaN \<and> rye ! j = NaN) \<and>
           (bin_members bins theta j \<noteq> [] \<longrightarrow>
              ry ! j = Fin (sum_list (map (\<lambda>i. y ! i) (bin_members bins theta j))
                            / real (length (bin_members bins theta j))) \<and>
              rye ! j = Fin (sum_list (map (\<lambda>i. yerr ! i) (bin_members bins theta j))
                             / real (length (bin_members bins theta j))))"
  using assms(2) rebin_bin[OF assms(6), of theta y] rebin_bin[OF assms(6), of theta yerr]
  unfolding assms(5) error_propagation_rebin_def assms(1)[symmetric] rebin_theta_def Let_def by simp

lemma ex_theta: "theta_of [0, pi / 60] [0, 0] [1, 0, 0, 1] = [0, 1 / 4]"
  by (simp add: theta_of_def rad2deg_def)

lemma ex_bins: "np_arange (Min (set [0, 1 / 4])) (Max (set [0, 1 / 4]) + 0.1) 0.1 = [0, 1 / 10, 2 / 10, 3 / 10]"
proof -
  have c: "\<lceil>(7 / 2 :: real)\<rceil> = 4" by (simp add: ceiling_eq_iff)
  have u: "[0..<4] = [0, 1, 2, 3]" by (simp add: upt_rec)
  show ?thesis by (simp add: np_arange_def c u)
qed

lemma ex_members:
  "bin_members [0, 1 / 10, 2 / 10, 3 / 10] [0, 1 / 4] 0 = [0]"
  "bin_members [0, 1 / 10, 2 / 10, 3 / 10] [0, 1 / 4] 1 = []"
  "bin_members [0, 1 / 10, 2 / 10, 3 / 10] [0, 1 / 4] 2 = [1]"
  by (simp_all add: bin_members_def in_bin_def upt_rec numeral_2_eq_2)


theorem rebin_empty_bin_is_nan_witness:
  "error_propagation_rebin [0, pi / 60] [0, 0] [1, 0, 0, 1] [4, 6] [1, 2]
     = Inr ([1 / 20, 3 / 20, 1 / 4], [Fin 4, NaN, Fin 6], [Fin 1, NaN, Fin 2])"
proof -
  let ?b = "[0, 1 / 10, 2 / 10, 3 / 10 :: real]"
  have u: "[0..<3] = [0, 1, 2]" by (simp add: upt_rec)
  have e: "error_propagation_rebin [0, pi / 60] [0, 0] [1, 0, 0, 1] [4, 6] [1, 2]
     = Inr ([1 / 20, 3 / 20, 1 / 4],
            where_mean (histogram_count [0, 1 / 4] ?b) (histogram_weights [0, 1 / 4] ?b [4, 6]),
            where_mean (histogram_count [0, 1 / 4] ?b) (histogram_weights [0, 1 / 4] ?b [1, 2]))"
    unfolding error_propagation_rebin_def ex_theta rebin_theta_def Let_def ex_bins by simp
  have l: "length (where_mean (histogram_count [0, 1 / 4] ?b) (histogram_weights [0, 1 / 4] ?b w)) = 3" for w
    by (simp add: where_mean_def histogram_count_def histogram_weights_def)
  have n: "(0::nat) < length ?b - 1" "(1::nat) < length ?b - 1" "(2::nat) < length ?b - 1" by simp_all
  have t: "[0, 1 / 4] \<noteq> ([] :: real list)" by simp
  have ly: "length [4, 6 :: real] = length [0, 1 / 4 :: real]"
    "length [1, 2 :: real] = length [0, 1 / 4 :: real]" by simp_all
  note r = rebin_empty_bin_is_nan[OF ex_theta[symmetric] t ly ex_bins[symmetric]]
  have v: "xs = [a, b, c]" if "length xs = 3" "xs ! 0 = a" "xs ! 1 = b" "xs ! 2 = c"
    for xs :: "npfloat list" and a b c
    using that by (cases xs; cases "tl xs"; cases "tl (tl xs)") (auto simp: numeral_2_eq_2)
  have w4: "where_mean (histogram_count [0, 1 / 4] ?b) (histogram_weights [0, 1 / 4] ?b [4, 6])
              = [Fin 4, NaN, Fin 6]"
    using r[OF n(1)] r[OF n(2)] r[OF n(3)] unfolding e ex_members
    by (intro v[OF l]) auto
  have w1: "where_mean (histogram_count [0, 1 / 4] ?b) (histogram_weights [0, 1 / 4] ?b [1, 2])
              = [Fin 1, NaN, Fin 2]"
    using r[OF n(1)] r[OF n(2)] r[OF n(3)] unfolding e ex_members
    by (intro v[OF l]) auto
  show ?thesis unfolding e w4 w1 ..
qed

section \<open>Properties of the normalizer\<close>

lemma single_pixel_ok:
  "wf_container (single_pixel h c cs)" "distinct (pixels_id (single_pixel h c cs))"
  "set (pixels_id (single_pixel h c cs)) \<subseteq> {0..<1855}"
  "high_gain (single_pixel h c cs) = Arr2 1 [ [h] ]" "0 < length (pixels_id (single_pixel h c cs))"
  "pixels_id (single_pixel h c cs) ! 0 = 0" "charge (single_pixel h c cs) ! 0 = c"
  by (simp_all add: single_pixel_def wf_container_def)

lemma argsort_length [simp]: "length (argsort a) = length a"
  by (simp add: argsort_def)

lemma argsort_set [simp]: "set (argsort a) = {0..<length a}"
  by (simp add: argsort_def)

lemma argsort_sorts:
  assumes "distinct a" "set a = {0..<n}"
  shows "map (\<lambda>i. a ! i) (argsort a) = [0..<n]"
proof -
  have s: "sorted (map (\<lambda>i. a ! i) (argsort a))" by (simp add: argsort_def)
  have inj: "inj_on (\<lambda>i. a ! i) {0..<length a}"
    using assms(1) by (auto simp: inj_on_def nth_eq_iff_index_eq)
  have d: "distinct (map (\<lambda>i. a ! i) (argsort a))"
    using inj by (simp add: distinct_map argsort_def)
  have "set (map (\<lambda>i. a ! i) (argsort a)) = (\<lambda>i. a ! i) ` {0..<length a}" by simp
  also have "\<dots> = set a" by (auto simp: set_conv_nth)
  finally have e: "set (map (\<lambda>i. a ! i) (argsort a)) = set [0..<n]" using assms(2) by simp
  show ?thesis by (rule sorted_distinct_set_unique[OF s d _ _ e]) simp_all
qed

lemma distinct_card_length:
  assumes "distinct a" "set a = {0..<n}"
  shows "length a = n"
  using assms distinct_card[of a] by simp

lemma argsort_nth:
  assumes "distinct a" "set a = {0..<n}" "p < n"
  shows "argsort a ! p < n \<and> a ! (argsort a ! p) = p"
proof -
  have l: "length a = n" by (rule distinct_card_length[OF assms(1,2)])
  have "map (\<lambda>i. a ! i) (argsort a) ! p = [0..<n] ! p" using argsort_sorts[OF assms(1,2)] by simp
  then have "a ! (argsort a ! p) = p" using assms(3) l by simp
  moreover have "argsort a ! p \<in> set (argsort a)" using assms(3) l by (intro nth_mem) simp
  ultimately show ?thesis using l by simp
qed

lemma argsort_pos:
  assumes "distinct a" "set a = {0..<n}" "j < length a"
  shows "a ! j < n \<and> argsort a ! (a ! j) = j"
proof -
  have l: "length a = n" by (rule distinct_card_length[OF assms(1,2)])
  have p: "a ! j < n" using assms(2,3) nth_mem[OF assms(3)] by auto
  from argsort_nth[OF assms(1,2) p]
  have "argsort a ! (a ! j) < length a" "a ! (argsort a ! (a ! j)) = a ! j" using l by simp_all
  then show ?thesis using assms(1,3) p by (simp add: nth_eq_iff_index_eq)
qed

lemma setdiff1d_upt: "setdiff1d [0..<n] b = filter (\<lambda>p. p \<notin> set b) [0..<n]"
proof -
  have "sort (remdups [0..<n]) = [0..<n]"
    by (simp add: sorted_sort_id)
  then show ?thesis by (simp add: setdiff1d_def)
qed

lemma merged_ids:
  assumes "distinct ids" "set ids \<subseteq> {0..<n}"
  shows "distinct (ids @ setdiff1d [0..<n] ids)" "set (ids @ setdiff1d [0..<n] ids) = {0..<n}"
  using assms by (auto simp: setdiff1d_upt)


lemma take_idx_ok:
  "set idx \<subseteq> {0..<length xs} \<Longrightarrow> take_idx xs idx = Inr (map (\<lambda>i. xs ! i) idx)"
  by (auto simp: take_idx_def list_all_iff)

lemma merge_result:
  assumes hg: "high_gain c = Arr2 k hg" and lg: "low_gain c = Arr2 k' lg"
    and lens: "length hg = length (pixels_id c)" "length lg = length (pixels_id c)"
      "length (charge c) = length (pixels_id c)"
    and ids: "distinct (pixels_id c)" "set (pixels_id c) \<subseteq> {0..<total_pixels}"
    and miss: "miss = setdiff1d [0..<total_pixels] (pixels_id c)"
    and perm: "perm = argsort (pixels_id c @ miss)"
  shows "merge_missing_pixels c =
     Inr (c\<lparr>pixels_id := [0..<total_pixels],
            high_gain := Arr2 k (map (\<lambda>i. (hg @ replicate (length miss) (replicate k 0)) ! i) perm),
            low_gain := Arr2 k' (map (\<lambda>i. (lg @ replicate (length miss) (replicate k' 0)) ! i) perm),
            charge := map (\<lambda>i. (charge c @ replicate (length miss) 0) ! i) perm,
            charge_std := Arr1 (map (\<lambda>i. (charge c @ replicate (length miss) 0) ! i) perm)\<rparr>,
          miss)"
proof -
  let ?M = "pixels_id c @ miss"
  have d: "distinct ?M" "set ?M = {0..<total_pixels}"
    unfolding miss using merged_ids[OF ids] by simp_all
  have l: "length ?M = total_pixels" by (rule distinct_card_length[OF d])
  have sp: "set perm = {0..<length (pixels_id c) + length miss}"
    unfolding perm by simp
  have s: "map (\<lambda>i. ?M ! i) perm = [0..<total_pixels]"
    unfolding perm by (rule argsort_sorts[OF d])
  have t1: "take_idx ?M perm = Inr [0..<total_pixels]"
    using take_idx_ok[of perm ?M] sp s by simp
  have t2: "take_idx (hg @ replicate (length miss) (replicate k 0)) perm
              = Inr (map (\<lambda>i. (hg @ replicate (length miss) (replicate k 0)) ! i) perm)"
    by (rule take_idx_ok) (simp add: sp lens)
  have t3: "take_idx (lg @ replicate (length miss) (replicate k' 0)) perm
              = Inr (map (\<lambda>i. (lg @ replicate (length miss) (replicate k' 0)) ! i) perm)"
    by (rule take_idx_ok) (simp add: sp lens)
  have t4: "take_idx (charge c @ replicate (length miss) 0) perm
              = Inr (map (\<lambda>i. (charge c @ replicate (length miss) 0) ! i) perm)"
    by (rule take_idx_ok) (simp add: sp lens)
  show ?thesis
    unfolding merge_missing_pixels_def Let_def miss[symmetric]
    by (simp add: hg lg shape1_def np_zeros2_def np_zeros_def bind_err_def perm[symmetric] t1 t2 t3 t4)
qed


lemma wf_containerD:
  assumes "wf_container c"
  obtains k hg k' lg where "high_gain c = Arr2 k hg" "low_gain c = Arr2 k' lg"
    "0 < k" "0 < k'"
    "length hg = length (pixels_id c)" "length lg = length (pixels_id c)"
    "length (charge c) = length (pixels_id c)"
  using assms unfolding wf_container_def
  by (auto split: ndarray.splits)

lemma perm_present:
  assumes "distinct ids" "set ids \<subseteq> {0..<n}" "j < length ids"
  shows "ids ! j < n \<and> argsort (ids @ setdiff1d [0..<n] ids) ! (ids ! j) = j"
proof -
  let ?M = "ids @ setdiff1d [0..<n] ids"
  have "j < length ?M" using assms(3) by simp
  from argsort_pos[OF merged_ids[OF assms(1,2)] this] show ?thesis
    using assms(3) by (simp add: nth_append)
qed

lemma perm_missing:
  assumes "distinct ids" "set ids \<subseteq> {0..<n}" "p < n" "p \<notin> set ids"
  shows "length ids \<le> argsort (ids @ setdiff1d [0..<n] ids) ! p
         \<and> argsort (ids @ setdiff1d [0..<n] ids) ! p < n"
proof -
  let ?M = "ids @ setdiff1d [0..<n] ids"
  from argsort_nth[OF merged_ids[OF assms(1,2)] assms(3)]
  have a: "argsort ?M ! p < n" "?M ! (argsort ?M ! p) = p" by simp_all
  have "\<not> argsort ?M ! p < length ids"
  proof
    assume b: "argsort ?M ! p < length ids"
    then have "?M ! (argsort ?M ! p) \<in> set ids" by (simp add: nth_append)
    then show False using a(2) assms(4) by simp
  qed
  then show ?thesis using a(1) by simp
qed

lemma merged_length:
  assumes "distinct ids" "set ids \<subseteq> {0..<n}"
  shows "length ids + length (setdiff1d [0..<n] ids) = n"
  using distinct_card_length[OF merged_ids[OF assms]] by simp

lemma merged_column_present:
  assumes "distinct ids" "set ids \<subseteq> {0..<n}" "j < length ids" "length xs = length ids"
  shows "map (\<lambda>i. (xs @ zs) ! i) (argsort (ids @ setdiff1d [0..<n] ids)) ! (ids ! j) = xs ! j"
proof -
  have l: "length (argsort (ids @ setdiff1d [0..<n] ids)) = n"
    using merged_length[OF assms(1,2)] by simp
  show ?thesis using perm_present[OF assms(1-3)] l assms(3,4) by (simp add: nth_append)
qed

lemma merged_column_missing:
  assumes "distinct ids" "set ids \<subseteq> {0..<n}" "p < n" "p \<notin> set ids" "length xs = length ids"
  shows "map (\<lambda>i. (xs @ replicate (length (setdiff1d [0..<n] ids)) z) ! i)
           (argsort (ids @ setdiff1d [0..<n] ids)) ! p = z"
proof -
  have l: "length (argsort (ids @ setdiff1d [0..<n] ids)) = n"
    using merged_length[OF assms(1,2)] by simp
  have m: "length ids + length (setdiff1d [0..<n] ids) = n" by (rule merged_length[OF assms(1,2)])
  let ?q = "argsort (ids @ setdiff1d [0..<n] ids) ! p"
  have q: "length ids \<le> ?q" "?q < n" using perm_missing[OF assms(1-4)] by simp_all
  have "?q - length ids < length (setdiff1d [0..<n] ids)" using q m by linarith
  then have "replicate (length (setdiff1d [0..<n] ids)) z ! (?q - length ids) = z"
    by (rule nth_replicate)
  then show ?thesis using q l assms(3,5) by (simp add: nth_append)
qed


lemma merged_output_general:
  assumes "wf_container c" "distinct (pixels_id c)" "set (pixels_id c) \<subseteq> {0..<total_pixels}"
    and "high_gain c = Arr2 k hg" "low_gain c = Arr2 k' lg"
  shows "\<exists>c' miss hg' lg'. merge_missing_pixels c = Inr (c', miss)
     \<and> pixels_id c' = [0..<total_pixels] \<and> sorted_wrt (<) (pixels_id c')
     \<and> length (pixels_id c') = total_pixels
     \<and> high_gain c' = Arr2 k hg' \<and> length hg' = total_pixels
     \<and> low_gain c' = Arr2 k' lg' \<and> length lg' = total_pixels
     \<and> length (charge c') = total_pixels
     \<and> charge_std c' = Arr1 (charge c')
     \<and> (\<forall>j<length (pixels_id c).
           hg' ! (pixels_id c ! j) = hg ! j \<and> lg' ! (pixels_id c ! j) = lg ! j
           \<and> charge c' ! (pixels_id c ! j) = charge c ! j)
     \<and> (\<forall>p<total_pixels. p \<notin> set (pixels_id c) \<longrightarrow>
           hg' ! p = replicate k 0 \<and> lg' ! p = replicate k' 0 \<and> charge c' ! p = 0)"
proof -
  from assms(1) obtain k0 hg0 k0' lg0 where w0: "high_gain c = Arr2 k0 hg0" "low_gain c = Arr2 k0' lg0"
    "0 < k0" "0 < k0'"
    "length hg0 = length (pixels_id c)" "length lg0 = length (pixels_id c)"
    "length (charge c) = length (pixels_id c)"
    by (rule wf_containerD)
  have kk: "k0 = k" "hg0 = hg" "k0' = k'" "lg0 = lg" using w0(1,2) assms(4,5) by simp_all
  note w = w0[unfolded kk]
  define miss where "miss = setdiff1d [0..<total_pixels] (pixels_id c)"
  define perm where "perm = argsort (pixels_id c @ miss)"
  note m = merge_result[OF w(1,2,5,6,7) assms(2,3) miss_def perm_def]
  have l: "length perm = total_pixels"
    unfolding perm_def miss_def using merged_length[OF assms(2,3)] by simp
  have z: "map (\<lambda>i. (xs @ replicate (length miss) v) ! i) perm ! p = v"
    if "p < total_pixels" "p \<notin> set (pixels_id c)" "length xs = length (pixels_id c)"
    for p v and xs :: "'b list"
    unfolding perm_def miss_def by (rule merged_column_missing[OF assms(2,3) that])
  have q: "map (\<lambda>i. (xs @ zs) ! i) perm ! (pixels_id c ! j) = xs ! j"
    if "j < length (pixels_id c)" "length xs = length (pixels_id c)"
    for j and xs zs :: "'b list"
    unfolding perm_def miss_def by (rule merged_column_present[OF assms(2,3) that])
  show ?thesis
    unfolding m using l z[OF _ _ w(5)] z[OF _ _ w(6)] z[OF _ _ w(7)]
      q[OF _ w(5)] q[OF _ w(6)] q[OF _ w(7)]
    by simp
qed

text \<open>
  Claim C5. For a well-formed sparse input whose pixel ids are distinct and below 1855, the
  merge succeeds and its output has exactly 1855 records with the pixel ids
  \<open>0, 1, \<dots>, 1854\<close> in strictly increasing order. A pixel id of the input keeps its gains
  and its charge; an absent one has zero gain rows of the input's width and a zero charge.
  The charge spread does not follow the claim: whatever its shape in the input, the merged
  charge spread is the one-dimensional merged charge.
\<close>

theorem merged_output_complete:
  assumes "wf_container c" "distinct (pixels_id c)" "set (pixels_id c) \<subseteq> {0..<1855}"
    and "high_gain c = Arr2 k hg" "low_gain c = Arr2 k' lg"
  shows "\<exists>c' miss hg' lg'. merge_missing_pixels c = Inr (c', miss)
     \<and> pixels_id c' = [0..<1855] \<and> sorted_wrt (<) (pixels_id c')
     \<and> length (pixels_id c') = 1855
     \<and> high_gain c' = Arr2 k hg' \<and> length hg' = 1855
     \<and> low_gain c' = Arr2 k' lg' \<and> length lg' = 1855
     \<and> length (charge c') = 1855
     \<and> charge_std c' = Arr1 (charge c')
     \<and> (\<forall>j<length (pixels_id c).
           hg' ! (pixels_id c ! j) = hg ! j \<and> lg' ! (pixels_id c ! j) = lg ! j
           \<and> charge c' ! (pixels_id c ! j) = charge c ! j)
     \<and> (\<forall>p<1855. p \<notin> set (pixels_id c) \<longrightarrow>
           hg' ! p = replicate k 0 \<and> lg' ! p = replicate k' 0 \<and> charge c' ! p = 0)"
  using merged_output_general[unfolded total_pixels_def, OF assms] .

lemma two_column_spread_ok:
  "wf_container two_column_spread" "distinct (pixels_id two_column_spread)"
  "set (pixels_id two_column_spread) \<subseteq> {0..<1855}"
  "high_gain two_column_spread = Arr2 1 [ [2] ]" "low_gain two_column_spread = Arr2 1 [ [1] ]"
  "pixels_id two_column_spread = [0]" "charge two_column_spread = [8]"
  "shape1 (charge_std two_column_spread) = 2"
  by (simp_all add: two_column_spread_def single_pixel_def wf_container_def shape1_def)

theorem merged_output_complete_witness:
  "\<exists>c' miss hg' lg'. merge_missing_pixels two_column_spread = Inr (c', miss)
     \<and> pixels_id c' = [0..<1855] \<and> length (pixels_id c') = 1855
     \<and> high_gain c' = Arr2 1 hg' \<and> length hg' = 1855 \<and> hg' ! 0 = [2] \<and> hg' ! 1 = [0]
     \<and> low_gain c' = Arr2 1 lg' \<and> length lg' = 1855 \<and> lg' ! 0 = [1] \<and> lg' ! 1 = [0]
     \<and> length (charge c') = 1855 \<and> charge c' ! 0 = 8 \<and> charge c' ! 1 = 0
     \<and> charge_std c' = Arr1 (charge c')
     \<and> shape1 (charge_std c') = 1 \<and> shape1 (charge_std two_column_spread) = 2"
proof -
  from merged_output_complete[OF two_column_spread_ok(1-5)]
  obtain c' miss hg' lg' where m: "merge_missing_pixels two_column_spread = Inr (c', miss)"
    "pixels_id c' = [0..<1855]" "length (pixels_id c') = 1855"
    "high_gain c' = Arr2 1 hg'" "length hg' = 1855"
    "low_gain c' = Arr2 1 lg'" "length lg' = 1855"
    "length (charge c') = 1855" "charge_std c' = Arr1 (charge c')"
    and pres: "\<forall>j<length (pixels_id two_column_spread).
           hg' ! (pixels_id two_column_spread ! j) = [ [2] ] ! j
           \<and> lg' ! (pixels_id two_column_spread ! j) = [ [1] ] ! j
           \<and> charge c' ! (pixels_id two_column_spread ! j) = charge two_column_spread ! j"
    and z: "\<forall>p<1855. p \<notin> set (pixels_id two_column_spread) \<longrightarrow>
           hg' ! p = replicate 1 0 \<and> lg' ! p = replicate 1 0 \<and> charge c' ! p = 0"
    by blast
  have a: "hg' ! 0 = [2] \<and> lg' ! 0 = [1] \<and> charge c' ! 0 = 8"
    using pres[rule_format, of 0] by (simp add: two_column_spread_ok(6,7))
  have b: "hg' ! 1 = [0] \<and> lg' ! 1 = [0] \<and> charge c' ! 1 = 0"
    using z[rule_format, of 1] by (simp add: two_column_spread_ok(6))
  have c: "shape1 (charge_std c') = 1" unfolding m(9) by (simp add: shape1_def)
  show ?thesis using m a b c two_column_spread_ok(8) by blast
qed

lemma divide_n_pe_nth:
  assumes "p < length ch" "length hg = length ch"
  shows "divide_n_pe ch hg ! p = (if 0 < hg ! p then ch ! p / hg ! p else 0)"
  using assms by (simp add: divide_n_pe_def)

lemma divide_std_nth:
  assumes "p < length ch" "length hg = length ch" "length chs = length ch" "length np = length ch"
  shows "divide_std chs np ch hg ! p
           = fl_sqrt (if hg ! p \<noteq> 0 then fl_div (Fin (chs ! p * np ! p)) (Fin (ch ! p)) else Fin 0)"
  using assms by (simp add: divide_std_def)

lemma length_divide_n_pe: "length hg = length ch \<Longrightarrow> length (divide_n_pe ch hg) = length ch"
  by (simp add: divide_n_pe_def)

lemma length_divide_std:
  "length hg = length ch \<Longrightarrow> length chs = length ch \<Longrightarrow> length np = length ch \<Longrightarrow>
     length (divide_std chs np ch hg) = length ch"
  by (simp add: divide_std_def)

lemma pre_process_fits_result:
  assumes "wf_container c" "distinct (pixels_id c)" "set (pixels_id c) \<subseteq> {0..<total_pixels}"
    and "high_gain c = Arr2 k hg"
  shows "\<exists>r HG0 CH. pre_process_fits c = Inr r
      \<and> length HG0 = total_pixels \<and> length CH = total_pixels
      \<and> (\<forall>j<length (pixels_id c). HG0 ! (pixels_id c ! j) = hg ! j ! 0
                                     \<and> CH ! (pixels_id c ! j) = charge c ! j)
      \<and> (\<forall>p<total_pixels. p \<notin> set (pixels_id c) \<longrightarrow> HG0 ! p = 0 \<and> CH ! p = 0)
      \<and> out_std_n_pe r = divide_std CH (divide_n_pe CH HG0) CH HG0
      \<and> out_n_pe r = masked_array (divide_n_pe CH HG0) (map fl_is_zero (out_std_n_pe r))
      \<and> out_sigma_masked r = masked_array (out_std_n_pe r) (map fl_is_zero (out_std_n_pe r))
      \<and> out_dict_missing_pix r =
          \<lparr>missing_pixels_count = int (length (setdiff1d [0..<total_pixels] (pixels_id c))),
           high_gain_zero_count = count_masked (masked_array HG0 (map (\<lambda>a. a \<le> 0) HG0))
              - int (length (setdiff1d [0..<total_pixels] (pixels_id c))),
           rejected_outliers = None\<rparr>"
proof -
  from assms(1) obtain k0 hg0 k' lg where w0: "high_gain c = Arr2 k0 hg0" "low_gain c = Arr2 k' lg"
    "0 < k0" "0 < k'"
    "length hg0 = length (pixels_id c)" "length lg = length (pixels_id c)"
    "length (charge c) = length (pixels_id c)"
    by (rule wf_containerD)
  have kk: "k0 = k" "hg0 = hg" using w0(1) assms(4) by simp_all
  note w = w0[unfolded kk]
  define miss where "miss = setdiff1d [0..<total_pixels] (pixels_id c)"
  define perm where "perm = argsort (pixels_id c @ miss)"
  define HG where "HG = map (\<lambda>i. (hg @ replicate (length miss) (replicate k 0)) ! i) perm"
  define HG0 where "HG0 = map (\<lambda>r. r ! 0) HG"
  define CH where "CH = map (\<lambda>i. (charge c @ replicate (length miss) 0) ! i) perm"
  note m = merge_result[OF w(1,2,5,6,7) assms(2,3) miss_def perm_def]
  have l: "length perm = total_pixels"
    unfolding perm_def miss_def using merged_length[OF assms(2,3)] by simp
  have lens: "length HG0 = total_pixels" "length CH = total_pixels" "length HG = total_pixels"
    by (simp_all add: HG0_def HG_def CH_def l)
  have pres: "HG0 ! (pixels_id c ! j) = hg ! j ! 0 \<and> CH ! (pixels_id c ! j) = charge c ! j"
    if "j < length (pixels_id c)" for j
  proof -
    have a: "pixels_id c ! j < total_pixels" using perm_present[OF assms(2,3) that] by simp
    have "HG ! (pixels_id c ! j) = hg ! j"
      unfolding HG_def perm_def miss_def by (rule merged_column_present[OF assms(2,3) that w(5)])
    moreover have "CH ! (pixels_id c ! j) = charge c ! j"
      unfolding CH_def perm_def miss_def by (rule merged_column_present[OF assms(2,3) that w(7)])
    ultimately show ?thesis using a lens by (simp add: HG0_def)
  qed
  have mis: "HG0 ! p = 0 \<and> CH ! p = 0" if "p < total_pixels" "p \<notin> set (pixels_id c)" for p
  proof -
    have "HG ! p = replicate k 0"
      unfolding HG_def perm_def miss_def by (rule merged_column_missing[OF assms(2,3) that w(5)])
    moreover have "CH ! p = 0"
      unfolding CH_def perm_def miss_def by (rule merged_column_missing[OF assms(2,3) that w(7)])
    ultimately show ?thesis using that(1) lens w(3) by (simp add: HG0_def)
  qed
  have r: "pre_process_fits c = Inr
     \<lparr>out_n_pe = masked_array (divide_n_pe CH HG0)
                   (map fl_is_zero (divide_std CH (divide_n_pe CH HG0) CH HG0)),
      out_std_n_pe = divide_std CH (divide_n_pe CH HG0) CH HG0,
      out_sigma_masked = masked_array (divide_std CH (divide_n_pe CH HG0) CH HG0)
                   (map fl_is_zero (divide_std CH (divide_n_pe CH HG0) CH HG0)),
      out_dict_missing_pix =
          \<lparr>missing_pixels_count = int (length miss),
           high_gain_zero_count = count_masked (masked_array HG0 (map (\<lambda>a. a \<le> 0) HG0))
              - int (length miss),
           rejected_outliers = None\<rparr>,
      out_high_gain = Arr2 k HG,
      out_low_gain = Arr2 k' (map (\<lambda>i. (lg @ replicate (length miss) (replicate k' 0)) ! i) perm),
      out_charge = CH\<rparr>"
    unfolding pre_process_fits_def m
    using w(3) by (simp add: bind_err_def Let_def HG_def[symmetric] HG0_def[symmetric] CH_def[symmetric])
  from r obtain R where R: "pre_process_fits c = Inr R"
    "out_std_n_pe R = divide_std CH (divide_n_pe CH HG0) CH HG0"
    "out_n_pe R = masked_array (divide_n_pe CH HG0) (map fl_is_zero (out_std_n_pe R))"
    "out_sigma_masked R = masked_array (out_std_n_pe R) (map fl_is_zero (out_std_n_pe R))"
    "out_dict_missing_pix R =
          \<lparr>missing_pixels_count = int (length miss),
           high_gain_zero_count = count_masked (masked_array HG0 (map (\<lambda>a. a \<le> 0) HG0))
              - int (length miss),
           rejected_outliers = None\<rparr>"
    by simp
  show ?thesis
    apply (rule exI[of _ R], rule exI[of _ HG0], rule exI[of _ CH])
    using R lens(1,2) pres mis unfolding miss_def by simp
qed


lemma pixel_values:
  assumes "wf_container c" "distinct (pixels_id c)" "set (pixels_id c) \<subseteq> {0..<total_pixels}"
    and "high_gain c = Arr2 k hg" and "j < length (pixels_id c)"
  shows "\<exists>r. pre_process_fits c = Inr r
     \<and> length (out_std_n_pe r) = total_pixels
     \<and> mmask (out_n_pe r) = map fl_is_zero (out_std_n_pe r)
     \<and> mmask (out_sigma_masked r) = map fl_is_zero (out_std_n_pe r)
     \<and> pixels_id c ! j < total_pixels
     \<and> mdata (out_n_pe r) ! (pixels_id c ! j)
         = (if 0 < hg ! j ! 0 then charge c ! j / hg ! j ! 0 else 0)
     \<and> out_std_n_pe r ! (pixels_id c ! j)
         = fl_sqrt (if hg ! j ! 0 \<noteq> 0
                    then fl_div (Fin (charge c ! j * (if 0 < hg ! j ! 0 then charge c ! j / hg ! j ! 0 else 0)))
                           (Fin (charge c ! j))
                    else Fin 0)"
proof -
  from pre_process_fits_result[OF assms(1-4)] obtain r HG0 CH where
    r: "pre_process_fits c = Inr r" "length HG0 = total_pixels" "length CH = total_pixels"
      "\<forall>j<length (pixels_id c). HG0 ! (pixels_id c ! j) = hg ! j ! 0
                                     \<and> CH ! (pixels_id c ! j) = charge c ! j"
      "out_std_n_pe r = divide_std CH (divide_n_pe CH HG0) CH HG0"
      "out_n_pe r = masked_array (divide_n_pe CH HG0) (map fl_is_zero (out_std_n_pe r))"
      "out_sigma_masked r = masked_array (out_std_n_pe r) (map fl_is_zero (out_std_n_pe r))"
    by blast
  let ?p = "pixels_id c ! j"
  have p: "?p < length CH" using perm_present[OF assms(2,3,5)] r(3) by simp
  have hl: "length HG0 = length CH" using r(2,3) by simp
  have v: "HG0 ! ?p = hg ! j ! 0" "CH ! ?p = charge c ! j" using r(4) assms(5) by simp_all
  have n: "divide_n_pe CH HG0 ! ?p = (if 0 < hg ! j ! 0 then charge c ! j / hg ! j ! 0 else 0)"
    using divide_n_pe_nth[OF p hl] v by simp
  have sd: "divide_std CH (divide_n_pe CH HG0) CH HG0 ! ?p
     = fl_sqrt (if hg ! j ! 0 \<noteq> 0
                then fl_div (Fin (charge c ! j * (if 0 < hg ! j ! 0 then charge c ! j / hg ! j ! 0 else 0)))
                       (Fin (charge c ! j))
                else Fin 0)"
    using divide_std_nth[OF p hl refl length_divide_n_pe[OF hl]] v n by simp
  have ls: "length (out_std_n_pe r) = total_pixels"
    unfolding r(5) using length_divide_std[OF hl refl length_divide_n_pe[OF hl]] r(3) by simp
  show ?thesis
    apply (rule exI[of _ r])
    using r(1) ls p r(3) n sd unfolding r(6) r(7) r(5) by (simp add: masked_array_def)
qed

text \<open>
  Claim C2 says that \<open>std_n_pe\<close> is computed from the input's charge spread. It is not:
  the merged charge spread is a copy of the charge, so for a present pixel with positive
  gain and positive charge the result is \<open>sqrt n_pe\<close> whatever the charge spread is.
\<close>

theorem std_n_pe_is_sqrt_n_pe:
  assumes "wf_container c" "distinct (pixels_id c)" "set (pixels_id c) \<subseteq> {0..<1855}"
    and "high_gain c = Arr2 k hg" and "j < length (pixels_id c)"
    and "0 < hg ! j ! 0" and "0 < charge c ! j"
  shows "\<exists>r. pre_process_fits c = Inr r
     \<and> mdata (out_n_pe r) ! (pixels_id c ! j) = charge c ! j / hg ! j ! 0
     \<and> out_std_n_pe r ! (pixels_id c ! j) = Fin (sqrt (charge c ! j / hg ! j ! 0))"
proof -
  have q: "\<not> charge c ! j / hg ! j ! 0 < 0" using assms(6,7) by (simp add: not_less)
  show ?thesis
    using pixel_values[unfolded total_pixels_def, OF assms(1-5)] assms(6,7) q by auto
qed

theorem std_n_pe_is_sqrt_n_pe_witness:
  "(\<exists>r. pre_process_fits (single_pixel 2 8 3) = Inr r
      \<and> mdata (out_n_pe r) ! 0 = 4 \<and> out_std_n_pe r ! 0 = Fin 2)
   \<and> sqrt (3 * 4 / 8) \<noteq> 2"
proof -
  have a: "sqrt 4 = 2" by (rule real_sqrt_unique) auto
  have b: "sqrt (3 * 4 / 8) \<noteq> 2"
  proof
    assume "sqrt (3 * 4 / 8) = 2"
    then have "(sqrt (3 * 4 / 8)) ^ 2 = 2 ^ 2" by simp
    then show False by simp
  qed
  show ?thesis
    using std_n_pe_is_sqrt_n_pe[OF single_pixel_ok(1-5), of 2 8 3] a b
    by (simp add: single_pixel_ok)
qed

text \<open>
  Claim C3 says that a pixel whose gain is not positive gets \<open>std_n_pe = 0\<close> and is masked.
  The second division is guarded by \<open>high_gain \<noteq> 0\<close> and divides by the charge: a present
  pixel with a negative gain and a zero charge gets \<open>0 / 0\<close>, so its \<open>std_n_pe\<close> is NaN and
  it is not masked.
\<close>

lemma nonpositive_gain_masked:
  assumes "wf_container c" "distinct (pixels_id c)" "set (pixels_id c) \<subseteq> {0..<1855}"
    and "high_gain c = Arr2 k hg" and "j < length (pixels_id c)"
    and "hg ! j ! 0 \<le> 0" and "hg ! j ! 0 = 0 \<or> charge c ! j \<noteq> 0"
  shows "\<exists>r. pre_process_fits c = Inr r
     \<and> mdata (out_n_pe r) ! (pixels_id c ! j) = 0
     \<and> out_std_n_pe r ! (pixels_id c ! j) = Fin 0
     \<and> mmask (out_n_pe r) ! (pixels_id c ! j)
     \<and> mmask (out_sigma_masked r) ! (pixels_id c ! j)"
  using pixel_values[unfolded total_pixels_def, OF assms(1-5)] assms(6,7) by auto

theorem negative_gain_zero_charge_is_nan:
  assumes "wf_container c" "distinct (pixels_id c)" "set (pixels_id c) \<subseteq> {0..<1855}"
    and "high_gain c = Arr2 k hg" and "j < length (pixels_id c)"
    and "hg ! j ! 0 < 0" and "charge c ! j = 0"
  shows "\<exists>r. pre_process_fits c = Inr r
     \<and> mdata (out_n_pe r) ! (pixels_id c ! j) = 0
     \<and> out_std_n_pe r ! (pixels_id c ! j) = NaN
     \<and> \<not> mmask (out_n_pe r) ! (pixels_id c ! j)
     \<and> \<not> mmask (out_sigma_masked r) ! (pixels_id c ! j)"
  using pixel_values[unfolded total_pixels_def, OF assms(1-5)] assms(6,7) by auto

theorem negative_gain_zero_charge_is_nan_witness:
  "\<exists>r. pre_process_fits (single_pixel (- 1) 0 1) = Inr r
      \<and> mdata (out_n_pe r) ! 0 = 0 \<and> out_std_n_pe r ! 0 = NaN
      \<and> \<not> mmask (out_n_pe r) ! 0 \<and> \<not> mmask (out_sigma_masked r) ! 0"
  using negative_gain_zero_charge_is_nan[OF single_pixel_ok(1-5), of "- 1" 0 1]
  by (simp add: single_pixel_ok)

section \<open>Properties of the outlier test\<close>

lemma compressed_nonempty:
  "Some x \<in> set cs \<Longrightarrow> compressed cs \<noteq> []"
  by (induction cs) (auto simp: compressed_def split: option.splits)

lemma cells_nth:
  assumes "i < length (mdata a)" "length (mmask a) = length (mdata a)"
  shows "cells a ! i = (if mmask a ! i then None else Some (mdata a ! i))"
  using assms by (simp add: cells_def)

lemma length_cells: "length (mmask a) = length (mdata a) \<Longrightarrow> length (cells a) = length (mdata a)"
  by (simp add: cells_def)

lemma outlier_flags_nth:
  assumes "i < length (mdata a)" "length (mmask a) = length (mdata a)" "\<not> mmask a ! i"
    and "np_mean ar (cells a) = Some mean" "np_std ar (cells a) = Some std"
  shows "outlier_flags ar a ! i = (np_multiply ar 3 std < \<bar>np_subtract ar (mdata a ! i) mean\<bar>)"
  using assms by (simp add: outlier_flags_def)



lemma sqrt16: "sqrt 16 = 4"
  by (rule real_sqrt_unique) auto




lemma cells_unmasked: "cells (masked_array xs (replicate (length xs) False)) = map Some xs"
  unfolding cells_def masked_array_def by (induction xs) auto

lemma cells_all_masked: "cells (masked_array xs (replicate (length xs) True)) = replicate (length xs) None"
  unfolding cells_def masked_array_def by (induction xs) auto

lemma cells_append:
  "length m1 = length d1 \<Longrightarrow>
     cells (masked_array (d1 @ d2) (m1 @ m2)) = cells (masked_array d1 m1) @ cells (masked_array d2 m2)"
  by (simp add: cells_def masked_array_def)

lemma compressed_append: "compressed (xs @ ys) = compressed xs @ compressed ys"
  by (simp add: compressed_def)

lemma compressed_Some: "compressed (map Some xs) = xs"
  by (induction xs) (auto simp: compressed_def)

lemma compressed_None: "compressed (replicate n None) = []"
  by (induction n) (auto simp: compressed_def)

lemma m_mean_of:
  "compressed cs = xs \<Longrightarrow> xs \<noteq> [] \<Longrightarrow> sum_list xs / real (length xs) = mu \<Longrightarrow> m_mean cs = Some mu"
  by (simp add: m_mean_def Let_def)

lemma m_std_of:
  "compressed cs = xs \<Longrightarrow> xs \<noteq> [] \<Longrightarrow> sum_list xs / real (length xs) = mu \<Longrightarrow>
     sqrt (sum_list (map (\<lambda>x. (x - mu) ^ 2) xs) / real (length xs)) = sd \<Longrightarrow> m_std cs = Some sd"
  by (simp add: m_std_def m_mean_def Let_def)



section \<open>The tally after the first fit\<close>

lemma masked_count:
  "int (length m) - ma_count (masked_array d (map f xs)) = int (length (filter f xs))"
  if "m = map f xs"
proof -
  have "length (filter f xs) + length (filter (\<lambda>x. \<not> f x) xs) = length xs"
    by (rule sum_length_filter_compl)
  moreover have "length (filter Not (map f xs)) = length (filter (\<lambda>x. \<not> f x) xs)"
    by (simp add: filter_map comp_def)
  ultimately show ?thesis unfolding that by (simp add: ma_count_def masked_array_def)
qed

lemma define_delete_out_ref_frame:
  assumes "define_delete_out_ref ar st sigma data_in = ((d', s', outliers), st')"
  shows "real_bufs st' = real_bufs st" "fl_bufs st' = fl_bufs st"
    "\<forall>a<next_buf st. mask_bufs st' a = mask_bufs st a"
    "data_at d' = data_at data_in" "data_at s' = data_at sigma"
    "mask_at s' = next_buf st" "mask_at d' = Suc (next_buf st)"
    "outliers = outlier_flags ar (load_real st data_in)"
    "mask_at data_in < next_buf st \<Longrightarrow>
       mask_bufs st' (mask_at d') = map2 (\<lambda>x y. x \<or> y) outliers (mask_bufs st (mask_at data_in))"
    "mask_bufs st' (mask_at s') = map2 (\<lambda>x y. x \<or> y) outliers (mask_bufs st (mask_at sigma))"
  using assms
  by (auto simp: define_delete_out_ref_def masked_array_ref_def Let_def)

lemma define_delete_out_ref_refines:
  assumes "define_delete_out_ref ar st sigma data_in = ((d', s', outliers), st')"
    and "mask_at data_in < next_buf st"
  shows "(load_real st' d', load_fl st' s', outliers)
           = define_delete_out ar (load_fl st sigma) (load_real st data_in)"
  using define_delete_out_ref_frame[OF assms(1)] assms(2)
  by (simp add: define_delete_out_def Let_def load_real_def load_fl_def remask_def)

lemma fitter_ref_frame:
  assumes "optimize_with_outlier_rejection_ref ar minimise pdf st sigma data_in
             = ((d1, model, minuit, residuals), st')"
    and "mask_at data_in < next_buf st" "mask_at sigma < next_buf st"
  shows "load_real st' data_in = load_real st data_in" "load_fl st' sigma = load_fl st sigma"
    "load_real st' d1 = remask (load_real st data_in) (outlier_flags ar (load_real st data_in))"
proof -
  obtain d' s' outliers st1 where d: "define_delete_out_ref ar st sigma data_in = ((d', s', outliers), st1)"
    by (metis prod_cases3 surj_pair)
  have e: "d1 = d'" "st' = st1"
    using assms(1) unfolding optimize_with_outlier_rejection_ref_def d by (simp_all add: Let_def)
  note f = define_delete_out_ref_frame[OF d]
  show "load_real st' data_in = load_real st data_in"
    using f(1,3) assms(2) by (simp add: load_real_def e)
  show "load_fl st' sigma = load_fl st sigma"
    using f(2,3) assms(3) by (simp add: load_fl_def e)
  show "load_real st' d1 = remask (load_real st data_in) (outlier_flags ar (load_real st data_in))"
    using f(1,4,8) f(9)[OF assms(2)] by (simp add: load_real_def e remask_def)
qed


lemma initial_store_loads:
  "load_real (initial_store r) \<lparr>data_at = 0, mask_at = 3\<rparr> = out_n_pe r"
  "load_fl (initial_store r) \<lparr>data_at = 1, mask_at = 2\<rparr> = out_sigma_masked r"
  "next_buf (initial_store r) = 4"
  by (simp_all add: load_real_def load_fl_def initial_store_def)

text \<open>
  Claim C10. The first fitter builds its outlier-masked arrays as new objects with mask
  buffers of their own and binds them to local names: after the call the script's
  \<^verbatim>\<open>n_pe\<close> and \<^verbatim>\<open>sigma_masked\<close>, read from the store as the fitter left it, are the
  arrays that \<^verbatim>\<open>pre_process_fits\<close> returned, data and masks, while the returned
  \<^verbatim>\<open>data_1\<close> carries the outlier mask. The tally \<^verbatim>\<open>rejected_outliers\<close> written
  after the first fit is therefore the number of pixels with \<open>std_n_pe = 0\<close> minus the
  missing-pixel count minus the high-gain-zero count, for every arithmetic, minimiser and
  camera density. In the witness the 3-sigma pass masks pixel 16 in \<^verbatim>\<open>data_1\<close>; the
  script's arrays leave it unmasked and the tally is 0.
\<close>

theorem first_tally_ignores_outliers:
  assumes "wf_container c" "distinct (pixels_id c)" "set (pixels_id c) \<subseteq> {0..<1855}"
  shows "\<exists>r s. pre_process_fits c = Inr r \<and> main_first_fit ar minimise pdf c = Inr s
     \<and> load_real (s_store s) (s_n_pe s) = out_n_pe r
     \<and> load_fl (s_store s) (s_sigma_masked s) = out_sigma_masked r
     \<and> load_real (s_store s) (s_data_1 s) = remask (out_n_pe r) (outlier_flags ar (out_n_pe r))
     \<and> rejected_outliers (s_dict_missing_pix s)
         = Some (int (length (filter fl_is_zero (out_std_n_pe r)))
                 - missing_pixels_count (out_dict_missing_pix r)
                 - high_gain_zero_count (out_dict_missing_pix r))"
proof -
  from assms(1) obtain k hg where hg: "high_gain c = Arr2 k hg" by (rule wf_containerD)
  from pre_process_fits_result[unfolded total_pixels_def, OF assms hg] obtain r HG0 CH where
    r: "pre_process_fits c = Inr r" "length HG0 = 1855" "length CH = 1855"
      "out_std_n_pe r = divide_std CH (divide_n_pe CH HG0) CH HG0"
      "out_sigma_masked r = masked_array (out_std_n_pe r) (map fl_is_zero (out_std_n_pe r))"
    by blast
  have hl: "length HG0 = length CH" using r(2,3) by simp
  have ls: "length (out_std_n_pe r) = 1855"
    unfolding r(4) using length_divide_std[OF hl refl length_divide_n_pe[OF hl]] r(3) by simp
  have "int (length (map fl_is_zero (out_std_n_pe r)))
          - ma_count (masked_array (out_std_n_pe r) (map fl_is_zero (out_std_n_pe r)))
        = int (length (filter fl_is_zero (out_std_n_pe r)))"
    by (rule masked_count) simp
  then have cnt: "1855 - ma_count (out_sigma_masked r) = int (length (filter fl_is_zero (out_std_n_pe r)))"
    unfolding r(5)[symmetric] using ls by simp
  let ?n = "\<lparr>data_at = 0, mask_at = 3\<rparr>" and ?s = "\<lparr>data_at = 1, mask_at = 2\<rparr>"
  obtain d1 model minuit residuals st1 where
    o: "optimize_with_outlier_rejection_ref ar minimise pdf (initial_store r) ?s ?n
          = ((d1, model, minuit, residuals), st1)"
    by (metis prod_cases4 surj_pair)
  have lt: "mask_at ?n < next_buf (initial_store r)" "mask_at ?s < next_buf (initial_store r)"
    by (simp_all add: initial_store_loads)
  note f = fitter_ref_frame[OF o lt, unfolded initial_store_loads]
  have m: "main_first_fit ar minimise pdf c = Inr
     \<lparr>s_store = st1, s_n_pe = ?n, s_std_n_pe = out_std_n_pe r, s_sigma_masked = ?s,
      s_dict_missing_pix = (out_dict_missing_pix r)\<lparr>rejected_outliers :=
          Some (1855 - ma_count (load_fl st1 ?s)
                - missing_pixels_count (out_dict_missing_pix r)
                - high_gain_zero_count (out_dict_missing_pix r))\<rparr>,
      s_data_1 = d1, s_fit_1 = model, s_minuit_1 = minuit\<rparr>"
    using o unfolding main_first_fit_def r(1) by (simp add: bind_err_def Let_def)
  show ?thesis
    apply (rule exI[of _ r])
    unfolding m using r(1) f cnt by simp
qed


lemma list_by_nth:
  assumes "length xs = n + m" "\<forall>p<n. xs ! p = ys ! p" "length ys = n"
    and "\<forall>p. n \<le> p \<and> p < n + m \<longrightarrow> xs ! p = z"
  shows "xs = ys @ replicate m z"
  using assms by (intro nth_equalityI) (auto simp: nth_append)

lemma outlier_container_ok:
  "wf_container outlier_container" "distinct (pixels_id outlier_container)"
  "set (pixels_id outlier_container) \<subseteq> {0..<1855}"
  "high_gain outlier_container = Arr2 1 (replicate 17 [1])"
  "pixels_id outlier_container = [0..<17]" "charge outlier_container = replicate 16 1 @ [18]"
  by (simp_all add: outlier_container_def wf_container_def list_all_iff)

lemma outlier_charge_pos: "p < 17 \<Longrightarrow> 0 < (replicate 16 1 @ [18 :: real]) ! p"
  by (cases "p < 16") (auto simp: nth_append)

lemma outlier_container_columns:
  "\<exists>r HG0 CH. pre_process_fits outlier_container = Inr r
      \<and> HG0 = replicate 17 1 @ replicate 1838 0
      \<and> CH = (replicate 16 1 @ [18]) @ replicate 1838 0
      \<and> out_std_n_pe r = divide_std CH (divide_n_pe CH HG0) CH HG0
      \<and> out_n_pe r = masked_array (divide_n_pe CH HG0) (map fl_is_zero (out_std_n_pe r))
      \<and> out_sigma_masked r = masked_array (out_std_n_pe r) (map fl_is_zero (out_std_n_pe r))
      \<and> missing_pixels_count (out_dict_missing_pix r) = 1838
      \<and> high_gain_zero_count (out_dict_missing_pix r)
           = count_masked (masked_array HG0 (map (\<lambda>a. a \<le> 0) HG0)) - 1838"
proof -
  from pre_process_fits_result[unfolded total_pixels_def, OF outlier_container_ok(1-4)]
  obtain r HG0 CH where r: "pre_process_fits outlier_container = Inr r"
      "length HG0 = 1855" "length CH = 1855"
      "\<forall>j<length (pixels_id outlier_container).
          HG0 ! (pixels_id outlier_container ! j) = replicate 17 [1] ! j ! 0
          \<and> CH ! (pixels_id outlier_container ! j) = charge outlier_container ! j"
      "\<forall>p<1855. p \<notin> set (pixels_id outlier_container) \<longrightarrow> HG0 ! p = 0 \<and> CH ! p = 0"
      "out_std_n_pe r = divide_std CH (divide_n_pe CH HG0) CH HG0"
      "out_n_pe r = masked_array (divide_n_pe CH HG0) (map fl_is_zero (out_std_n_pe r))"
      "out_sigma_masked r = masked_array (out_std_n_pe r) (map fl_is_zero (out_std_n_pe r))"
      "out_dict_missing_pix r =
          \<lparr>missing_pixels_count = int (length (setdiff1d [0..<1855] (pixels_id outlier_container))),
           high_gain_zero_count = count_masked (masked_array HG0 (map (\<lambda>a. a \<le> 0) HG0))
              - int (length (setdiff1d [0..<1855] (pixels_id outlier_container))),
           rejected_outliers = None\<rparr>"
    by blast
  have pres: "HG0 ! p = 1 \<and> CH ! p = (replicate 16 1 @ [18]) ! p" if "p < 17" for p
    using r(4)[rule_format, of p] that by (simp add: outlier_container_ok(5,6))
  have mis: "HG0 ! p = 0 \<and> CH ! p = 0" if "17 \<le> p" "p < 1855" for p
    using r(5)[rule_format, of p] that by (simp add: outlier_container_ok(5))
  have h: "HG0 = replicate 17 1 @ replicate 1838 0"
    by (rule list_by_nth[where n = 17]) (use r(2) pres mis in auto)
  have c: "CH = (replicate 16 1 @ [18]) @ replicate 1838 0"
    by (rule list_by_nth[where n = 17]) (use r(3) pres mis in auto)
  have "length (pixels_id outlier_container) + length (setdiff1d [0..<1855] (pixels_id outlier_container)) = 1855"
    by (rule merged_length[OF outlier_container_ok(2,3)])
  then have m: "int (length (setdiff1d [0..<1855] (pixels_id outlier_container))) = 1838"
    by (simp add: outlier_container_ok(5))
  show ?thesis
    apply (rule exI[of _ r], rule exI[of _ HG0], rule exI[of _ CH])
    using r(1,6,7,8) h c unfolding r(9) m by simp
qed


lemma outlier_container_fits:
  "\<exists>r. pre_process_fits outlier_container = Inr r
      \<and> mdata (out_n_pe r) = (replicate 16 1 @ [18]) @ replicate 1838 0
      \<and> mmask (out_n_pe r) = replicate 17 False @ replicate 1838 True
      \<and> mmask (out_sigma_masked r) = replicate 17 False @ replicate 1838 True
      \<and> int (length (filter fl_is_zero (out_std_n_pe r))) = 1838
      \<and> missing_pixels_count (out_dict_missing_pix r) = 1838
      \<and> high_gain_zero_count (out_dict_missing_pix r) = 0"
proof -
  from outlier_container_columns obtain r HG0 CH where
    r: "pre_process_fits outlier_container = Inr r"
      "HG0 = replicate 17 1 @ replicate 1838 0"
      "CH = (replicate 16 1 @ [18]) @ replicate 1838 0"
      "out_std_n_pe r = divide_std CH (divide_n_pe CH HG0) CH HG0"
      "out_n_pe r = masked_array (divide_n_pe CH HG0) (map fl_is_zero (out_std_n_pe r))"
      "out_sigma_masked r = masked_array (out_std_n_pe r) (map fl_is_zero (out_std_n_pe r))"
      "missing_pixels_count (out_dict_missing_pix r) = 1838"
      "high_gain_zero_count (out_dict_missing_pix r)
           = count_masked (masked_array HG0 (map (\<lambda>a. a \<le> 0) HG0)) - 1838"
    by blast
  have len: "length CH = 1855" "length HG0 = length CH" by (simp_all add: r(2,3))
  have hn: "HG0 ! p = (if p < 17 then 1 else 0)" if "p < 1855" for p
    using that by (simp add: r(2) nth_append)
  have cn: "CH ! p = (if p < 17 then (replicate 16 1 @ [18]) ! p else 0)" if "p < 1855" for p
    using that unfolding r(3) by (subst nth_append) simp
  have n: "divide_n_pe CH HG0 = CH"
  proof (rule nth_equalityI)
    show "length (divide_n_pe CH HG0) = length CH" by (rule length_divide_n_pe[OF len(2)])
    fix p assume "p < length (divide_n_pe CH HG0)"
    then have p: "p < length CH" "p < 1855" using length_divide_n_pe[OF len(2)] len(1) by simp_all
    show "divide_n_pe CH HG0 ! p = CH ! p"
      unfolding divide_n_pe_nth[OF p(1) len(2)] using hn[OF p(2)] cn[OF p(2)] by simp
  qed
  let ?S = "out_std_n_pe r"
  have ls: "length ?S = 1855"
    unfolding r(4) n using length_divide_std[OF len(2) refl refl] len(1) by simp
  have sn: "fl_is_zero (?S ! p) = (17 \<le> p)" if "p < 1855" for p
  proof -
    have p: "p < length CH" using that len(1) by simp
    have e: "?S ! p = fl_sqrt (if HG0 ! p \<noteq> 0 then fl_div (Fin (CH ! p * CH ! p)) (Fin (CH ! p)) else Fin 0)"
      unfolding r(4) n by (rule divide_std_nth[OF p len(2) refl refl])
    show ?thesis
    proof (cases "p < 17")
      case True
      then have "0 < CH ! p" using cn[OF that] outlier_charge_pos[of p] by simp
      then show ?thesis using True hn[OF that] unfolding e by (simp add: not_less)
    next
      case False
      then show ?thesis using hn[OF that] unfolding e by simp
    qed
  qed
  have m: "map fl_is_zero ?S = replicate 17 False @ replicate 1838 True"
    by (rule list_by_nth[where n = 17]) (use ls sn in auto)
  have "length (filter fl_is_zero ?S) = length (filter id (map fl_is_zero ?S))"
    by (simp add: filter_map comp_def)
  then have cnt: "int (length (filter fl_is_zero ?S)) = 1838" unfolding m by simp
  have hg: "count_masked (masked_array HG0 (map (\<lambda>a. a \<le> 0) HG0)) = 1838"
    by (simp add: count_masked_def masked_array_def r(2))
  show ?thesis
    apply (rule exI[of _ r])
    using r(1,7) cnt unfolding r(8) hg r(5) r(6) n m by (simp add: masked_array_def r(3))
qed


lemma outlier_population:
  "compressed (cells \<lparr>mdata = (replicate 16 1 @ [18]) @ replicate 1838 0,
                       mmask = replicate 17 False @ replicate 1838 True\<rparr>)
     = replicate 16 1 @ [18 :: real]"
proof -
  have l: "length (replicate 16 (1::real) @ [18]) = 17" "length (replicate 1838 (0::real)) = 1838" by simp_all
  have a: "cells (masked_array (replicate 16 (1::real) @ [18]) (replicate 17 False))
             = map Some (replicate 16 1 @ [18])"
    using cells_unmasked[of "replicate 16 (1::real) @ [18]"] unfolding l .
  have b: "cells (masked_array (replicate 1838 (0::real)) (replicate 1838 True)) = replicate 1838 None"
    using cells_all_masked[of "replicate 1838 (0::real)"] unfolding l .
  have "cells (masked_array ((replicate 16 (1::real) @ [18]) @ replicate 1838 0)
                 (replicate 17 False @ replicate 1838 True))
          = map Some (replicate 16 1 @ [18]) @ replicate 1838 None"
    by (subst cells_append) (simp_all only: a b l length_replicate)
  then show ?thesis
    unfolding masked_array_def by (simp only: compressed_append compressed_Some compressed_None append_Nil2)
qed


theorem first_tally_ignores_outliers_witness:
  "\<exists>r s. pre_process_fits outlier_container = Inr r
     \<and> main_first_fit exact_arith start_minimiser (uniform_pdf 1855) outlier_container = Inr s
     \<and> outlier_flags exact_arith (out_n_pe r) ! 16
     \<and> mmask (load_real (s_store s) (s_data_1 s)) ! 16
     \<and> \<not> mmask (load_real (s_store s) (s_n_pe s)) ! 16
     \<and> \<not> mmask (load_fl (s_store s) (s_sigma_masked s)) ! 16
     \<and> rejected_outliers (s_dict_missing_pix s) = Some 0"
proof -
  from first_tally_ignores_outliers[OF outlier_container_ok(1-3), of exact_arith start_minimiser
      "uniform_pdf 1855"]
  obtain r s where t: "pre_process_fits outlier_container = Inr r"
    "main_first_fit exact_arith start_minimiser (uniform_pdf 1855) outlier_container = Inr s"
    "load_real (s_store s) (s_n_pe s) = out_n_pe r"
    "load_fl (s_store s) (s_sigma_masked s) = out_sigma_masked r"
    "load_real (s_store s) (s_data_1 s)
       = remask (out_n_pe r) (outlier_flags exact_arith (out_n_pe r))"
    "rejected_outliers (s_dict_missing_pix s)
         = Some (int (length (filter fl_is_zero (out_std_n_pe r)))
                 - missing_pixels_count (out_dict_missing_pix r)
                 - high_gain_zero_count (out_dict_missing_pix r))"
    by blast
  from outlier_container_fits t(1) have f:
    "mdata (out_n_pe r) = (replicate 16 1 @ [18]) @ replicate 1838 0"
    "mmask (out_n_pe r) = replicate 17 False @ replicate 1838 True"
    "mmask (out_sigma_masked r) = replicate 17 False @ replicate 1838 True"
    "int (length (filter fl_is_zero (out_std_n_pe r))) = 1838"
    "missing_pixels_count (out_dict_missing_pix r) = 1838"
    "high_gain_zero_count (out_dict_missing_pix r) = 0"
    by auto
  have e: "out_n_pe r = \<lparr>mdata = (replicate 16 1 @ [18]) @ replicate 1838 0,
                          mmask = replicate 17 False @ replicate 1838 True\<rparr>"
    using f(1,2) by (cases "out_n_pe r") simp
  have c: "compressed (cells (out_n_pe r)) = replicate 16 1 @ [18]"
    unfolding e by (rule outlier_population)
  have n: "replicate 16 1 @ [18] \<noteq> ([] :: real list)" by simp
  have mu: "sum_list (replicate 16 1 @ [18]) / real (length (replicate 16 1 @ [18 :: real])) = 2"
    by (simp add: sum_list_replicate)
  have sd: "sqrt (sum_list (map (\<lambda>x. (x - 2) ^ 2) (replicate 16 1 @ [18]))
              / real (length (replicate 16 1 @ [18 :: real]))) = 4"
    by (simp add: sum_list_replicate sqrt16)
  have st: "np_mean exact_arith (cells (out_n_pe r)) = Some 2"
    "np_std exact_arith (cells (out_n_pe r)) = Some 4"
    using m_mean_of[OF c n mu] m_std_of[OF c n mu sd] by (simp_all add: exact_arith_def)
  have i: "16 < length (mdata (out_n_pe r))" "length (mmask (out_n_pe r)) = length (mdata (out_n_pe r))"
    "\<not> mmask (out_n_pe r) ! 16" "mdata (out_n_pe r) ! 16 = 18" "\<not> mmask (out_sigma_masked r) ! 16"
    unfolding f by (simp_all add: nth_append)
  have fl: "outlier_flags exact_arith (out_n_pe r) ! 16"
    unfolding outlier_flags_nth[OF i(1-3) st] i(4) by (simp add: exact_arith_def)
  have l: "length (outlier_flags exact_arith (out_n_pe r)) = length (mdata (out_n_pe r))"
    using i(2) st by (simp add: outlier_flags_def)
  have m: "mmask (remask (out_n_pe r) (outlier_flags exact_arith (out_n_pe r))) ! 16"
    using i(1,2) l fl by (simp add: remask_def)
  show ?thesis
    apply (rule exI[of _ r], rule exI[of _ s])
    using t(1,2) fl m i(3,5) unfolding t(3,4,5,6) f(4,5,6) by simp
qed

end
